theory Spec2Isabelle
  imports Main
begin

section \<open>Python values\<close>

text \<open>
  The vault document is whatever \<open>json.loads\<close> returns, and the code reads it with
  \<open>.get\<close>, \<open>[...]\<close> and truth tests, so the model keeps Python's dynamic values.
  A dict is an association list in insertion order with unique keys. Keys are compared
  structurally, which is Python's equality on the keys this code uses (strings and
  \<open>None\<close>). Numbers are integers (token lifetimes are whole seconds).
\<close>

datatype pyval =
    PNone
  | PBool bool
  | PInt int
  | PStr string
  | PList "pyval list"
  | PDict "(pyval \<times> pyval) list"

datatype exn =
    KeyError | IndexError | TypeError | AttributeError | ValueError | OverflowError
  | OSError | EOFError | HTTPError | RequestException | RetryError

text \<open>
  The result of running a piece of the program: a value, an exception that is still
  propagating, or \<open>sys.exit(n)\<close> (a \<open>SystemExit\<close>, which no \<open>except Exception\<close>
  clause catches).
\<close>

datatype 'a res = Val 'a | Exc exn | Exit int

fun truthy :: "pyval \<Rightarrow> bool" where
  "truthy PNone = False"
| "truthy (PBool b) = b"
| "truthy (PInt i) = (i \<noteq> 0)"
| "truthy (PStr s) = (s \<noteq> [])"
| "truthy (PList xs) = (xs \<noteq> [])"
| "truthy (PDict kvs) = (kvs \<noteq> [])"

fun hashable :: "pyval \<Rightarrow> bool" where
  "hashable (PList xs) = False"
| "hashable (PDict kvs) = False"
| "hashable v = True"

fun dict_set :: "(pyval \<times> pyval) list \<Rightarrow> pyval \<Rightarrow> pyval \<Rightarrow> (pyval \<times> pyval) list" where
  "dict_set [] k v = [(k, v)]"
| "dict_set ((k', v') # kvs) k v =
     (if k' = k then (k, v) # kvs else (k', v') # dict_set kvs k v)"

fun dict_del :: "(pyval \<times> pyval) list \<Rightarrow> pyval \<Rightarrow> (pyval \<times> pyval) list" where
  "dict_del [] k = []"
| "dict_del ((k', v') # kvs) k = (if k' = k then kvs else (k', v') # dict_del kvs k)"

definition dict_get :: "(pyval \<times> pyval) list \<Rightarrow> pyval \<Rightarrow> pyval \<Rightarrow> pyval" where
  "dict_get kvs k d = (case map_of kvs k of None \<Rightarrow> d | Some v \<Rightarrow> v)"

text \<open>An index into a list: an int, or a bool read as 0 or 1.\<close>

fun as_index :: "pyval \<Rightarrow> int option" where
  "as_index (PInt i) = Some i"
| "as_index (PBool b) = Some (if b then 1 else 0)"
| "as_index v = None"

definition list_pos :: "'a list \<Rightarrow> int \<Rightarrow> nat option" where
  "list_pos xs i =
     (let n = int (length xs); j = (if i < 0 then n + i else i)
      in if 0 \<le> j \<and> j < n then Some (nat j) else None)"

section \<open>The world outside the program\<close>

text \<open>
  Replies of the OAuth token endpoint: the connection fails, or a response with a status
  code and a JSON body arrives.
\<close>

datatype reply = Unreachable | Reply nat pyval

text \<open>
  A transient failure is a failed connection or a 5xx response; a rejection is a 4xx
  response.
\<close>

fun transient :: "reply \<Rightarrow> bool" where
  "transient Unreachable = True"
| "transient (Reply status js) = (500 \<le> status \<and> status < 600)"

fun rejected :: "reply \<Rightarrow> bool" where
  "rejected Unreachable = False"
| "rejected (Reply status js) = (400 \<le> status \<and> status < 500)"

text \<open>
  \<open>data_file\<close> is the content of \<open>DATA_FILE\<close> (\<open>None\<close> when the file does not
  exist); \<open>fernet_key\<close> is the key of the module-level \<open>fernet\<close> object;
  \<open>file_readable\<close> and \<open>file_writable\<close> say whether opening the file for reading
  and for writing succeeds; \<open>write_fault\<close> is \<open>None\<close> when writing to the open file
  succeeds, and \<open>Some n\<close> when it fails after \<open>n\<close> bytes have reached the file;
  \<open>chmod_ok\<close> says whether \<open>os.chmod\<close> on the file succeeds; \<open>clock\<close> is the wall
  clock in seconds;
  \<open>replies\<close> are the replies the token endpoint will give, in order (when none is
  left the connection fails); \<open>posted\<close> the
  bodies sent to it so far; \<open>slept\<close> the waits made so far; \<open>stdout\<close> the lines
  printed (without colour codes and exception texts); \<open>stdin\<close> the lines the user
  will type; \<open>port_free\<close> says whether \<open>LOCAL_PORT\<close> can be bound.
\<close>

record world =
  data_file :: "string option"
  fernet_key :: string
  file_readable :: bool
  file_writable :: bool
  write_fault :: "nat option"
  chmod_ok :: bool
  clock :: int
  replies :: "reply list"
  posted :: "pyval list"
  slept :: "int list"
  stdout :: "string list"
  stdin :: "string list"
  port_free :: bool

text \<open>
  The libraries the code calls are parameters: \<open>json.dumps\<close> (\<open>None\<close> when it
  raises), \<open>json.loads\<close> (\<open>None\<close> when it raises), Fernet encryption and decryption
  under a key (decryption includes the \<open>.decode()\<close> and is \<open>None\<close> when either
  raises; the IV and timestamp Fernet draws are fixed by the parameter),
  \<open>datetime.isoformat\<close> and \<open>datetime.fromisoformat\<close> (\<open>None\<close> when it raises)
  on timestamps in seconds.
\<close>

record lib =
  json_dumps :: "pyval \<Rightarrow> string option"
  json_loads :: "string \<Rightarrow> pyval option"
  fernet_encrypt :: "string \<Rightarrow> string \<Rightarrow> string"
  fernet_decrypt :: "string \<Rightarrow> string \<Rightarrow> string option"
  isoformat :: "int \<Rightarrow> string"
  fromisoformat :: "string \<Rightarrow> int option"

text \<open>
  A piece of program is a function from the state before to its result and the state
  after. The state is the world, or the world paired with the mutable object a function
  was passed (see \<open>refresh_token_if_needed\<close>).
\<close>

type_synonym ('a, 's) sprog = "'s \<Rightarrow> 'a res \<times> 's"

type_synonym 'a prog = "('a, world) sprog"

definition ret :: "'a \<Rightarrow> ('a, 's) sprog" where
  "ret x = (\<lambda>w. (Val x, w))"

definition raise :: "exn \<Rightarrow> ('a, 's) sprog" where
  "raise e = (\<lambda>w. (Exc e, w))"

definition sys_exit :: "int \<Rightarrow> ('a, 's) sprog" where
  "sys_exit n = (\<lambda>w. (Exit n, w))"

definition bnd :: "('a, 's) sprog \<Rightarrow> ('a \<Rightarrow> ('b, 's) sprog) \<Rightarrow> ('b, 's) sprog" where
  "bnd m f = (\<lambda>w. case m w of
                   (Val x, w') \<Rightarrow> f x w'
                 | (Exc e, w') \<Rightarrow> (Exc e, w')
                 | (Exit n, w') \<Rightarrow> (Exit n, w'))"

text \<open>\<open>try: m except ... as e: h e\<close>; a handler re-raises what its clauses do not name.\<close>

definition try_except :: "('a, 's) sprog \<Rightarrow> (exn \<Rightarrow> ('a, 's) sprog) \<Rightarrow> ('a, 's) sprog" where
  "try_except m h = (\<lambda>w. case m w of
                        (Exc e, w') \<Rightarrow> h e w'
                      | (Val x, w') \<Rightarrow> (Val x, w')
                      | (Exit n, w') \<Rightarrow> (Exit n, w'))"

definition of_option :: "exn \<Rightarrow> 'a option \<Rightarrow> ('a, 's) sprog" where
  "of_option e x = (case x of None \<Rightarrow> raise e | Some v \<Rightarrow> ret v)"

definition print :: "string \<Rightarrow> unit prog" where
  "print s = (\<lambda>w. (Val (), w\<lparr>stdout := stdout w @ [s]\<rparr>))"

definition now :: "int prog" where
  "now = (\<lambda>w. (Val (clock w), w))"

definition sleep :: "int \<Rightarrow> unit prog" where
  "sleep d = (\<lambda>w. (Val (), w\<lparr>clock := clock w + d, slept := slept w @ [d]\<rparr>))"

text \<open>\<open>input()\<close>: the next line typed, \<open>EOFError\<close> at the end of the input.\<close>

definition input :: "string prog" where
  "input = (\<lambda>w. case stdin w of
                [] \<Rightarrow> (Exc EOFError, w)
              | l # ls \<Rightarrow> (Val l, w\<lparr>stdin := ls\<rparr>))"

text \<open>
  \<open>requests.post(url, json=body)\<close> followed by \<open>resp.raise_for_status()\<close>: a failed
  connection raises a \<open>RequestException\<close>, a status from 400 to 599 an \<open>HTTPError\<close>.
\<close>

definition requests_post :: "pyval \<Rightarrow> (nat \<times> pyval) prog" where
  "requests_post body = (\<lambda>w.
     case replies w of
       [] \<Rightarrow> (Exc RequestException, w\<lparr>posted := posted w @ [body]\<rparr>)
     | Unreachable # rs \<Rightarrow>
         (Exc RequestException, w\<lparr>replies := rs, posted := posted w @ [body]\<rparr>)
     | Reply status js # rs \<Rightarrow>
         (Val (status, js), w\<lparr>replies := rs, posted := posted w @ [body]\<rparr>))"

definition raise_for_status :: "nat \<times> pyval \<Rightarrow> (unit, 's) sprog" where
  "raise_for_status resp = (if 400 \<le> fst resp \<and> fst resp < 600 then raise HTTPError else ret ())"

subsection \<open>Operations on Python values\<close>

text \<open>\<open>x.get(k, d)\<close>: only a dict has the method.\<close>

definition py_get :: "pyval \<Rightarrow> pyval \<Rightarrow> pyval \<Rightarrow> (pyval, 's) sprog" where
  "py_get x k d =
     (case x of
        PDict kvs \<Rightarrow>
          if hashable k then ret (dict_get kvs k d) else raise TypeError
      | _ \<Rightarrow> raise AttributeError)"

text \<open>\<open>x[k]\<close>\<close>

definition py_getitem :: "pyval \<Rightarrow> pyval \<Rightarrow> (pyval, 's) sprog" where
  "py_getitem x k =
     (case x of
        PDict kvs \<Rightarrow>
          if hashable k then of_option KeyError (map_of kvs k) else raise TypeError
      | PList xs \<Rightarrow>
          (case as_index k of
             None \<Rightarrow> raise TypeError
           | Some i \<Rightarrow> (case list_pos xs i of
                          None \<Rightarrow> raise IndexError
                        | Some j \<Rightarrow> ret (xs ! j)))
      | PStr s \<Rightarrow>
          (case as_index k of
             None \<Rightarrow> raise TypeError
           | Some i \<Rightarrow> (case list_pos s i of
                          None \<Rightarrow> raise IndexError
                        | Some j \<Rightarrow> ret (PStr [s ! j])))
      | _ \<Rightarrow> raise TypeError)"

text \<open>\<open>x[k] = v\<close>, returning the updated object.\<close>

definition py_setitem :: "pyval \<Rightarrow> pyval \<Rightarrow> pyval \<Rightarrow> (pyval, 's) sprog" where
  "py_setitem x k v =
     (case x of
        PDict kvs \<Rightarrow>
          if hashable k then ret (PDict (dict_set kvs k v)) else raise TypeError
      | PList xs \<Rightarrow>
          (case as_index k of
             None \<Rightarrow> raise TypeError
           | Some i \<Rightarrow> (case list_pos xs i of
                          None \<Rightarrow> raise IndexError
                        | Some j \<Rightarrow> ret (PList (xs[j := v]))))
      | _ \<Rightarrow> raise TypeError)"

section \<open>The vault store of eldoore1.1.py\<close>

definition empty_document :: pyval where
  "empty_document =
     PDict [(PStr ''users'', PDict []), (PStr ''analyses'', PList []),
            (PStr ''creds'', PDict []), (PStr ''current_user'', PNone)]"

text \<open>
  \<open>with open(DATA_FILE, 'wb') as f: f.write(bytes)\<close>: opening the file creates or
  empties it; when the write, or the flush at the end of the block, fails, the bytes that
  had reached the file stay in it.
\<close>

definition write_data_file :: "string \<Rightarrow> unit prog" where
  "write_data_file bytes = (\<lambda>w.
     if \<not> file_writable w then (Exc OSError, w)
     else (case write_fault w of
             None \<Rightarrow> (Val (), w\<lparr>data_file := Some bytes\<rparr>)
           | Some n \<Rightarrow> (Exc OSError, w\<lparr>data_file := Some (take n bytes)\<rparr>)))"

text \<open>\<open>os.chmod(DATA_FILE, 0o600)\<close>\<close>

definition chmod_data_file :: "unit prog" where
  "chmod_data_file = (\<lambda>w. if chmod_ok w then (Val (), w) else (Exc OSError, w))"

definition encrypt_data :: "lib \<Rightarrow> pyval \<Rightarrow> unit prog" where
  "encrypt_data L data =
     try_except
       (bnd (of_option TypeError (json_dumps L data)) (\<lambda>json_str.
        bnd (\<lambda>w. (Val (fernet_encrypt L (fernet_key w) json_str), w)) (\<lambda>encrypted.
        bnd (write_data_file encrypted) (\<lambda>_.
        chmod_data_file))))
       (\<lambda>e. bnd (print ''Encryption error'') (\<lambda>_. sys_exit 1))"

definition read_data_file :: "string \<Rightarrow> string prog" where
  "read_data_file encrypted = (\<lambda>w.
     if file_readable w then (Val encrypted, w) else (Exc OSError, w))"

definition load_data :: "lib \<Rightarrow> pyval prog" where
  "load_data L = (\<lambda>w.
     case data_file w of
       Some content \<Rightarrow>
         try_except
           (bnd (read_data_file content) (\<lambda>encrypted.
            bnd (of_option ValueError (fernet_decrypt L (fernet_key w) encrypted)) (\<lambda>decrypted.
            of_option ValueError (json_loads L decrypted))))
           (\<lambda>e. bnd (print ''Data load error. Resetting data.'') (\<lambda>_. ret empty_document))
           w
     | None \<Rightarrow> ret empty_document w)"

text \<open>\<open>get_user_data(username)\<close>\<close>

definition get_user_data :: "lib \<Rightarrow> pyval \<Rightarrow> pyval prog" where
  "get_user_data L username =
     bnd (load_data L) (\<lambda>data.
     bnd (py_getitem data (PStr ''users'')) (\<lambda>users.
     py_get users username (PDict [])))"

section \<open>Token refresh (eldoore1.1.py)\<close>

text \<open>
  \<open>refresh_token_if_needed(user_data)\<close> mutates the dict it is passed, and the retry
  decorator calls the function again on the same object, so the function runs on the
  world paired with that object.
\<close>

definition in_world :: "'a prog \<Rightarrow> ('a, world \<times> 'l) sprog" where
  "in_world m = (\<lambda>(w, l). case m w of (r, w') \<Rightarrow> (r, (w', l)))"

definition get_local :: "('l, world \<times> 'l) sprog" where
  "get_local = (\<lambda>(w, l). (Val l, (w, l)))"

definition set_local :: "'l \<Rightarrow> (unit, world \<times> 'l) sprog" where
  "set_local l' = (\<lambda>(w, l). (Val (), (w, l')))"

text \<open>\<open>user_data[k] = v\<close> on the object passed in.\<close>

definition set_user_data :: "string \<Rightarrow> pyval \<Rightarrow> (unit, world \<times> pyval) sprog" where
  "set_user_data k v =
     bnd get_local (\<lambda>user_data.
     bnd (py_setitem user_data (PStr k) v) (\<lambda>user_data'.
     set_local user_data'))"

text \<open>\<open>datetime.fromisoformat(x)\<close>: a \<open>TypeError\<close> unless \<open>x\<close> is a string.\<close>

definition parse_iso :: "lib \<Rightarrow> pyval \<Rightarrow> (int, 's) sprog" where
  "parse_iso L x =
     (case x of
        PStr s \<Rightarrow> of_option ValueError (fromisoformat L s)
      | _ \<Rightarrow> raise TypeError)"

text \<open>
  \<open>(t + timedelta(seconds=x)).isoformat()\<close> for a datetime \<open>t\<close>: \<open>x\<close> must be a
  number; a \<open>timedelta\<close> holds at most 999999999 days, and a \<open>datetime\<close> lies between
  the years 1 and 9999.
\<close>

definition timedelta_max :: int where
  "timedelta_max = 999999999 * 86400 + 86399"

definition datetime_min :: int where
  "datetime_min = - 62135596800"

definition datetime_max :: int where
  "datetime_max = 253402300799"

definition plus_seconds :: "lib \<Rightarrow> int \<Rightarrow> pyval \<Rightarrow> (pyval, 's) sprog" where
  "plus_seconds L t x =
     (case as_index x of
        None \<Rightarrow> raise TypeError
      | Some n \<Rightarrow>
          if \<bar>n\<bar> > timedelta_max then raise OverflowError
          else if t + n < datetime_min \<or> datetime_max < t + n then raise OverflowError
          else ret (PStr (isoformat L (t + n))))"

definition refresh_exchange_data :: "pyval \<Rightarrow> pyval \<Rightarrow> pyval \<Rightarrow> pyval" where
  "refresh_exchange_data client_key client_secret refresh_token =
     PDict [(PStr ''client_key'', client_key), (PStr ''client_secret'', client_secret),
            (PStr ''refresh_token'', refresh_token),
            (PStr ''grant_type'', PStr ''refresh_token'')]"

text \<open>The \<open>try\<close> block of \<open>refresh_token_if_needed\<close>.\<close>

definition refresh_body :: "lib \<Rightarrow> (bool, world \<times> pyval) sprog" where
  "refresh_body L =
       (bnd get_local (\<lambda>user_data.
        bnd (py_get user_data (PStr ''tiktok_access_token'') PNone) (\<lambda>access_token.
        bnd (py_get user_data (PStr ''expires_at'') PNone) (\<lambda>expires_at.
        if \<not> truthy access_token \<or> \<not> truthy expires_at then ret False
        else
          bnd (in_world now) (\<lambda>t.
          bnd (parse_iso L expires_at) (\<lambda>expiry.
          if t > expiry then
            bnd (py_get user_data (PStr ''refresh_token'') PNone) (\<lambda>refresh_token.
            if truthy refresh_token then
              bnd (in_world (load_data L)) (\<lambda>loaded.
              bnd (py_get loaded (PStr ''creds'') (PDict [])) (\<lambda>creds.
              bnd (py_get creds (PStr ''tiktok_app_id'') PNone) (\<lambda>client_key.
              bnd (py_get creds (PStr ''tiktok_app_secret'') PNone) (\<lambda>client_secret.
              bnd (in_world (requests_post
                     (refresh_exchange_data client_key client_secret refresh_token))) (\<lambda>resp.
              bnd (raise_for_status resp) (\<lambda>_.
              bnd (ret (snd resp)) (\<lambda>token_data.
              bnd (py_get token_data (PStr ''access_token'') PNone) (\<lambda>new_access.
              bnd (set_user_data ''tiktok_access_token'' new_access) (\<lambda>_.
              bnd (py_get token_data (PStr ''refresh_token'') refresh_token) (\<lambda>new_refresh.
              bnd (set_user_data ''refresh_token'' new_refresh) (\<lambda>_.
              bnd (in_world now) (\<lambda>t'.
              bnd (py_get token_data (PStr ''expires_in'') (PInt 7200)) (\<lambda>expires_in.
              bnd (plus_seconds L t' expires_in) (\<lambda>new_expiry.
              bnd (set_user_data ''expires_at'' new_expiry) (\<lambda>_.
              bnd (in_world (load_data L)) (\<lambda>data.
              bnd get_local (\<lambda>user_data'.
              bnd (py_getitem data (PStr ''users'')) (\<lambda>users.
              bnd (py_getitem data (PStr ''current_user'')) (\<lambda>current_user.
              bnd (py_setitem users current_user user_data') (\<lambda>users'.
              bnd (py_setitem data (PStr ''users'') users') (\<lambda>data'.
              bnd (in_world (encrypt_data L data')) (\<lambda>_.
              ret True))))))))))))))))))))))
            else ret True)
          else ret True))))))"

text \<open>The body of \<open>refresh_token_if_needed\<close>, without the decorator.\<close>

definition refresh_attempt :: "lib \<Rightarrow> (bool, world \<times> pyval) sprog" where
  "refresh_attempt L =
     try_except (refresh_body L)
       (\<lambda>e. if e = HTTPError then
               bnd (in_world (print ''HTTP error during token refresh'')) (\<lambda>_. ret False)
             else if e = RequestException then
               bnd (in_world (print ''Request error during token refresh'')) (\<lambda>_. ret False)
             else raise e)"

text \<open>
  The decorator \<open>@retry(stop=stop_after_attempt(3), wait=wait_exponential(multiplier=1,
  min=4, max=10))\<close> of the tenacity library: the function is called again after any
  exception (a \<open>SystemExit\<close> is not one), after a wait, until the attempt with the
  number 3 has failed, and then \<open>RetryError\<close> is raised.
\<close>

definition stop_after_attempt :: "nat \<Rightarrow> nat \<Rightarrow> bool" where
  "stop_after_attempt max_attempt attempt = (attempt \<ge> max_attempt)"

definition wait_exponential :: "int \<Rightarrow> int \<Rightarrow> int \<Rightarrow> nat \<Rightarrow> int" where
  "wait_exponential multiplier lo hi attempt =
     max (max 0 lo) (min (multiplier * 2 ^ (attempt - 1)) hi)"

function retry :: "('a, world \<times> 'l) sprog \<Rightarrow> nat \<Rightarrow> ('a, world \<times> 'l) sprog" where
  "retry f attempt s =
     (case f s of
        (Exc e, s') \<Rightarrow>
          if stop_after_attempt 3 attempt then (Exc RetryError, s')
          else retry f (Suc attempt)
                 (snd (in_world (sleep (wait_exponential 1 4 10 attempt)) s'))
      | (Val x, s') \<Rightarrow> (Val x, s')
      | (Exit n, s') \<Rightarrow> (Exit n, s'))"
  by pat_completeness auto
termination
  by (relation "measure (\<lambda>(f, attempt, s). 3 - attempt)")
     (auto simp: stop_after_attempt_def)

definition refresh_token_if_needed :: "lib \<Rightarrow> (bool, world \<times> pyval) sprog" where
  "refresh_token_if_needed L = retry (refresh_attempt L) 1"

text \<open>Calling a function on a local object: the caller gets the result and the object back.\<close>

definition with_local :: "'l \<Rightarrow> ('a, world \<times> 'l) sprog \<Rightarrow> ('a \<times> 'l) prog" where
  "with_local l m = (\<lambda>w.
     case m (w, l) of
       (Val x, (w', l')) \<Rightarrow> (Val (x, l'), w')
     | (Exc e, (w', l')) \<Rightarrow> (Exc e, w')
     | (Exit n, (w', l')) \<Rightarrow> (Exit n, w'))"

section \<open>Console helpers (eldoore1.1.py)\<close>

text \<open>\<open>str.strip()\<close> on ASCII whitespace.\<close>

definition is_space :: "char \<Rightarrow> bool" where
  "is_space c = (let n = (of_char c :: nat) in (9 \<le> n \<and> n \<le> 13) \<or> (28 \<le> n \<and> n \<le> 32))"

definition strip :: "string \<Rightarrow> string" where
  "strip s = rev (dropWhile is_space (rev (dropWhile is_space s)))"

text \<open>
  The loop of \<open>validate_input\<close> over the lines still to be typed: the value returned
  (\<open>None\<close> when the input ends first), the lines left, and the messages printed.
\<close>

fun validate_lines ::
  "(string \<Rightarrow> bool) option \<Rightarrow> bool \<Rightarrow> string list \<Rightarrow> string option \<times> string list \<times> string list" where
  "validate_lines validator required [] = (None, [], [])"
| "validate_lines validator required (l # ls) =
     (let v = strip l in
      if required \<and> v = [] then
        (case validate_lines validator required ls of
           (r, rest, out) \<Rightarrow> (r, rest, ''Field required!'' # out))
      else if (case validator of None \<Rightarrow> False | Some ok \<Rightarrow> \<not> ok v) then
        (case validate_lines validator required ls of
           (r, rest, out) \<Rightarrow> (r, rest, ''Invalid input!'' # out))
      else (Some v, ls, []))"

definition validate_input :: "(string \<Rightarrow> bool) option \<Rightarrow> bool \<Rightarrow> string prog" where
  "validate_input validator required = (\<lambda>w.
     case validate_lines validator required (stdin w) of
       (Some v, rest, out) \<Rightarrow> (Val v, w\<lparr>stdin := rest, stdout := stdout w @ out\<rparr>)
     | (None, rest, out) \<Rightarrow> (Exc EOFError, w\<lparr>stdin := rest, stdout := stdout w @ out\<rparr>))"

text \<open>
  \<open>loading_spinner(msg, duration)\<close> sleeps a tenth of a second for each of the four
  spinner characters, \<open>duration * 10\<close> times, and leaves one line on the screen.
\<close>

definition loading_spinner :: "string \<Rightarrow> int \<Rightarrow> unit prog" where
  "loading_spinner msg duration = bnd (sleep (4 * duration)) (\<lambda>_. print msg)"

section \<open>The callback listener (eldoore1.1.py)\<close>

text \<open>
  The server object: the two attributes the handler writes, whether its listening socket
  is open, and whether a thread runs \<open>serve_forever\<close> on it.
\<close>

record server =
  auth_code :: pyval
  auth_state :: pyval
  socket_open :: bool
  serving :: bool

text \<open>
  A request is the query of its path, each parameter with the first of its values (what
  \<open>params.get(name, [None])[0]\<close> reads from the result of \<open>parse_qs\<close>).
\<close>

type_synonym request = "(string \<times> string) list"

definition query_param :: "request \<Rightarrow> string \<Rightarrow> pyval" where
  "query_param params name = (case map_of params name of None \<Rightarrow> PNone | Some v \<Rightarrow> PStr v)"

text \<open>\<open>OAuthCallbackHandler.do_GET\<close>: the server after the request, and the status sent.\<close>

definition do_GET :: "request \<Rightarrow> server \<Rightarrow> server \<times> nat" where
  "do_GET params httpd =
     (let code = query_param params ''code''; state = query_param params ''state'' in
      if truthy code \<and> truthy state
      then (httpd\<lparr>auth_code := code, auth_state := state\<rparr>, 200)
      else (httpd, 400))"

text \<open>
  \<open>socketserver.TCPServer((host, port), handler)\<close> binds and listens, or raises
  \<open>OSError\<close>; leaving a \<open>with\<close> block on a server calls its \<open>server_close()\<close>,
  which closes the listening socket.
\<close>

definition tcp_server :: "server prog" where
  "tcp_server = (\<lambda>w.
     if port_free w
     then (Val \<lparr>auth_code = PNone, auth_state = PNone, socket_open = True, serving = False\<rparr>, w)
     else (Exc OSError, w))"

definition server_close :: "server \<Rightarrow> server" where
  "server_close httpd = httpd\<lparr>socket_open := False\<rparr>"

definition start_local_server :: "server prog" where
  "start_local_server =
     bnd tcp_server (\<lambda>httpd.
     bnd (ret (httpd\<lparr>auth_code := PNone\<rparr>)) (\<lambda>httpd.
     bnd (ret (httpd\<lparr>auth_state := PNone\<rparr>)) (\<lambda>httpd.
     bnd (ret (httpd\<lparr>serving := True\<rparr>)) (\<lambda>httpd.
     ret (server_close httpd)))))"

text \<open>
  The handler thread runs between two polls of the main thread. Which requests it gets to
  process during the \<open>n\<close>-th sleep is an input, \<open>arrivals n\<close>; nothing is assumed
  about it.
\<close>

definition serve :: "request list \<Rightarrow> server \<Rightarrow> server" where
  "serve reqs httpd = foldl (\<lambda>h r. fst (do_GET r h)) httpd reqs"

text \<open>\<open>while not httpd.auth_code: time.sleep(1)\<close>; \<open>None\<close> when the loop never ends.\<close>

partial_function (option) await_code ::
  "(nat \<Rightarrow> request list) \<Rightarrow> nat \<Rightarrow> server \<Rightarrow> world \<Rightarrow> (server \<times> world) option" where
  "await_code arrivals n httpd w =
     (if truthy (auth_code httpd) then Some (httpd, w)
      else await_code arrivals (Suc n) (serve (arrivals n) httpd) (snd (sleep 1 w)))"

text \<open>A callback is well formed when it carries a code and a state.\<close>

definition well_formed :: "request \<Rightarrow> bool" where
  "well_formed params =
     (truthy (query_param params ''code'') \<and> truthy (query_param params ''state''))"

text \<open>The server object \<open>k\<close> polls after the poll with the number \<open>n\<close>.\<close>

fun server_after :: "(nat \<Rightarrow> request list) \<Rightarrow> nat \<Rightarrow> nat \<Rightarrow> server \<Rightarrow> server" where
  "server_after arrivals n 0 httpd = httpd"
| "server_after arrivals n (Suc k) httpd =
     server_after arrivals (Suc n) k (serve (arrivals n) httpd)"

section \<open>Login, logout and credentials (eldoore1.1.py)\<close>

definition login_exchange_data :: "pyval \<Rightarrow> pyval \<Rightarrow> pyval \<Rightarrow> pyval" where
  "login_exchange_data client_key client_secret code =
     PDict [(PStr ''client_key'', client_key), (PStr ''client_secret'', client_secret),
            (PStr ''code'', code), (PStr ''grant_type'', PStr ''authorization_code''),
            (PStr ''redirect_uri'', PStr ''http://localhost:8000/callback'')]"

text \<open>
  \<open>tiktok_oauth_login\<close> from the state check after the wait to the end of the
  \<open>try\<close> block. \<open>httpd.shutdown()\<close> touches neither the vault nor the result and
  is left out.
\<close>

definition complete_login :: "lib \<Rightarrow> pyval \<Rightarrow> pyval \<Rightarrow> string \<Rightarrow> server \<Rightarrow> unit prog" where
  "complete_login L data creds username httpd =
     (if auth_state httpd \<noteq> PStr username then print ''State mismatch in OAuth callback.''
      else
        bnd (ret (auth_code httpd)) (\<lambda>code.
        bnd (loading_spinner ''Exchanging code...'' 2) (\<lambda>_.
        bnd (py_getitem creds (PStr ''tiktok_app_id'')) (\<lambda>client_key.
        bnd (py_getitem creds (PStr ''tiktok_app_secret'')) (\<lambda>client_secret.
        bnd (requests_post (login_exchange_data client_key client_secret code)) (\<lambda>resp.
        bnd (raise_for_status resp) (\<lambda>_.
        bnd (ret (snd resp)) (\<lambda>token_data.
        bnd (py_get token_data (PStr ''access_token'') PNone) (\<lambda>access_token.
        bnd (py_get token_data (PStr ''refresh_token'') PNone) (\<lambda>refresh_token.
        if truthy access_token then
          bnd now (\<lambda>t.
          bnd (py_get token_data (PStr ''expires_in'') (PInt 7200)) (\<lambda>expires_in.
          bnd (plus_seconds L t expires_in) (\<lambda>expires_at.
          bnd now (\<lambda>t'.
          bnd (ret (PDict [(PStr ''tiktok_access_token'', access_token),
                           (PStr ''refresh_token'', refresh_token),
                           (PStr ''expires_at'', expires_at),
                           (PStr ''tier'', PStr ''enterprise''),
                           (PStr ''login_time'', PStr (isoformat L t'))])) (\<lambda>user_data.
          bnd (py_getitem data (PStr ''users'')) (\<lambda>users.
          bnd (py_setitem users (PStr username) user_data) (\<lambda>users'.
          bnd (py_setitem data (PStr ''users'') users') (\<lambda>data'.
          bnd (py_setitem data' (PStr ''current_user'') (PStr username)) (\<lambda>data''.
          bnd (encrypt_data L data'') (\<lambda>_.
          print (''Login successful! Welcome, '' @ username @ ''.'')))))))))))
        else ret ()))))))))))"

text \<open>The \<open>except\<close> clauses of \<open>tiktok_oauth_login\<close>: every exception is caught.\<close>

definition oauth_handlers :: "unit res \<times> world \<Rightarrow> unit res \<times> world" where
  "oauth_handlers rw =
     (case rw of
        (Exc e, w) \<Rightarrow>
          if e = HTTPError then print ''HTTP error in OAuth'' w
          else if e = RequestException then print ''Request error in OAuth'' w
          else print ''OAuth error'' w
      | (Val x, w) \<Rightarrow> (Val x, w)
      | (Exit n, w) \<Rightarrow> (Exit n, w))"

text \<open>The \<open>try\<close> block up to the wait. \<open>webbrowser.open\<close> has no effect here.\<close>

definition begin_login :: "pyval \<Rightarrow> (string \<times> server) prog" where
  "begin_login creds =
     bnd (validate_input None True) (\<lambda>username.
     bnd (print ''=== OAUTH LOGIN ==='') (\<lambda>_.
     bnd (py_getitem creds (PStr ''tiktok_app_id'')) (\<lambda>_.
     bnd (print ''Opening browser for authorization...'') (\<lambda>_.
     bnd start_local_server (\<lambda>httpd.
     ret (username, httpd))))))"

text \<open>The whole \<open>try\<close> statement; \<open>None\<close> when the wait for the callback never ends.\<close>

definition oauth_attempt ::
  "lib \<Rightarrow> pyval \<Rightarrow> pyval \<Rightarrow> (nat \<Rightarrow> request list) \<Rightarrow> world \<Rightarrow> (unit res \<times> world) option" where
  "oauth_attempt L data creds arrivals w =
     (case begin_login creds w of
        (Val (username, httpd), w') \<Rightarrow>
          (case await_code arrivals 0 httpd w' of
             None \<Rightarrow> None
           | Some (httpd', w'') \<Rightarrow>
               Some (oauth_handlers (complete_login L data creds username httpd' w'')))
      | (Exc e, w') \<Rightarrow> Some (oauth_handlers (Exc e, w'))
      | (Exit n, w') \<Rightarrow> Some (Exit n, w'))"

text \<open>
  \<open>tiktok_oauth_login\<close> before the \<open>try\<close>: \<open>None\<close> when the function has returned,
  else the document and the credentials it goes on with.
\<close>

definition login_prefix :: "lib \<Rightarrow> (pyval \<times> pyval) option prog" where
  "login_prefix L =
     bnd (load_data L) (\<lambda>data.
     bnd (py_get data (PStr ''creds'') (PDict [])) (\<lambda>creds.
     bnd (py_get creds (PStr ''tiktok_app_id'') PNone) (\<lambda>app_id.
     if \<not> truthy app_id then
       bnd (print ''Set credentials first in menu 9!'') (\<lambda>_. ret None)
     else
       bnd (py_get data (PStr ''current_user'') PNone) (\<lambda>current_user.
       if truthy current_user then
         bnd (py_getitem data (PStr ''current_user'')) (\<lambda>username.
         bnd (get_user_data L username) (\<lambda>user_data.
         bnd (with_local user_data (refresh_token_if_needed L)) (\<lambda>refreshed.
         if fst refreshed then bnd (print ''Token auto-refreshed!'') (\<lambda>_. ret None)
         else ret (Some (data, creds)))))
       else ret (Some (data, creds))))))"

definition tiktok_oauth_login ::
  "lib \<Rightarrow> (nat \<Rightarrow> request list) \<Rightarrow> world \<Rightarrow> (unit res \<times> world) option" where
  "tiktok_oauth_login L arrivals w =
     (case login_prefix L w of
        (Val (Some (data, creds)), w') \<Rightarrow> oauth_attempt L data creds arrivals w'
      | (Val None, w') \<Rightarrow> Some (Val (), w')
      | (Exc e, w') \<Rightarrow> Some (Exc e, w')
      | (Exit n, w') \<Rightarrow> Some (Exit n, w'))"

text \<open>\<open>k in x\<close> and \<open>del x[k]\<close>\<close>

definition is_substring :: "string \<Rightarrow> string \<Rightarrow> bool" where
  "is_substring t s = list_ex (\<lambda>i. take (length t) (drop i s) = t) [0..<Suc (length s)]"

definition py_contains :: "pyval \<Rightarrow> pyval \<Rightarrow> (bool, 's) sprog" where
  "py_contains x k =
     (case x of
        PDict kvs \<Rightarrow> if hashable k then ret (k \<in> set (map fst kvs)) else raise TypeError
      | PList xs \<Rightarrow> ret (k \<in> set xs)
      | PStr s \<Rightarrow> (case k of PStr t \<Rightarrow> ret (is_substring t s) | _ \<Rightarrow> raise TypeError)
      | _ \<Rightarrow> raise TypeError)"

definition py_delitem :: "pyval \<Rightarrow> pyval \<Rightarrow> (pyval, 's) sprog" where
  "py_delitem x k =
     (case x of
        PDict kvs \<Rightarrow>
          if \<not> hashable k then raise TypeError
          else if k \<in> set (map fst kvs) then ret (PDict (dict_del kvs k))
          else raise KeyError
      | PList xs \<Rightarrow>
          (case as_index k of
             None \<Rightarrow> raise TypeError
           | Some i \<Rightarrow> (case list_pos xs i of
                          None \<Rightarrow> raise IndexError
                        | Some j \<Rightarrow> ret (PList (take j xs @ drop (Suc j) xs))))
      | _ \<Rightarrow> raise TypeError)"

definition logout_body :: "lib \<Rightarrow> pyval \<Rightarrow> unit prog" where
  "logout_body L username =
       (bnd (load_data L) (\<lambda>data.
        bnd (py_getitem data (PStr ''users'')) (\<lambda>users.
        bnd (py_contains users username) (\<lambda>present.
        bnd (if present then
               bnd (py_getitem data (PStr ''users'')) (\<lambda>users.
               bnd (py_delitem users username) (\<lambda>users'.
               py_setitem data (PStr ''users'') users'))
             else ret data) (\<lambda>data'.
        bnd (py_setitem data' (PStr ''current_user'') PNone) (\<lambda>data''.
        bnd (encrypt_data L data'') (\<lambda>_.
        print ''Logged out.'')))))))"

definition logout :: "lib \<Rightarrow> pyval \<Rightarrow> unit prog" where
  "logout L username = try_except (logout_body L username) (\<lambda>e. print ''Logout error'')"

text \<open>
  \<open>os.getenv(name) or prompt\<close>: the environment is a parameter; \<open>getpass.getpass\<close>
  reads a line as \<open>input\<close> does.
\<close>

definition env_or :: "(string \<Rightarrow> string option) \<Rightarrow> string \<Rightarrow> string prog \<Rightarrow> string prog" where
  "env_or getenv name prompt =
     (case getenv name of
        Some v \<Rightarrow> if v \<noteq> [] then ret v else prompt
      | None \<Rightarrow> prompt)"

definition set_cred :: "pyval \<Rightarrow> string \<Rightarrow> string prog \<Rightarrow> pyval prog" where
  "set_cred creds name value = bnd value (\<lambda>v. py_setitem creds (PStr name) (PStr v))"

definition set_credentials_body :: "lib \<Rightarrow> (string \<Rightarrow> string option) \<Rightarrow> unit prog" where
  "set_credentials_body L getenv =
       (bnd (load_data L) (\<lambda>data.
        bnd (py_get data (PStr ''creds'') (PDict [])) (\<lambda>creds.
        bnd (set_cred creds ''tiktok_app_id''
               (env_or getenv ''TIKTOK_APP_ID'' (validate_input None True))) (\<lambda>creds.
        bnd (set_cred creds ''tiktok_app_secret''
               (env_or getenv ''TIKTOK_APP_SECRET'' input)) (\<lambda>creds.
        bnd (set_cred creds ''tiktok_advertiser_id''
               (env_or getenv ''TIKTOK_ADVERTISER_ID'' (validate_input None True))) (\<lambda>creds.
        bnd (set_cred creds ''research_access_token''
               (env_or getenv ''RESEARCH_ACCESS_TOKEN'' (validate_input None False))) (\<lambda>creds.
        bnd (set_cred creds ''shop_app_id''
               (env_or getenv ''SHOP_APP_ID'' (validate_input None True))) (\<lambda>creds.
        bnd (set_cred creds ''shop_secret''
               (env_or getenv ''SHOP_SECRET'' input)) (\<lambda>creds.
        bnd (py_get creds (PStr ''tiktok_app_id'') PNone) (\<lambda>app_id.
        bnd (if truthy app_id then py_get creds (PStr ''tiktok_app_secret'') PNone
             else ret PNone) (\<lambda>app_secret.
        bnd (if truthy app_id \<and> truthy app_secret
             then py_get creds (PStr ''tiktok_advertiser_id'') PNone
             else ret PNone) (\<lambda>advertiser_id.
        if \<not> truthy app_id \<or> \<not> truthy app_secret \<or> \<not> truthy advertiser_id then
          print ''Required TikTok credentials missing!''
        else
          bnd (py_setitem data (PStr ''creds'') creds) (\<lambda>data'.
          bnd (encrypt_data L data') (\<lambda>_.
          print ''Credentials saved!''))))))))))))))"

definition set_credentials :: "lib \<Rightarrow> (string \<Rightarrow> string option) \<Rightarrow> unit prog" where
  "set_credentials L getenv =
     try_except (set_credentials_body L getenv) (\<lambda>e. print ''Set credentials error'')"

section \<open>The vault store and the login of TTKv1.py\<close>

text \<open>
  \<open>load_data\<close> and \<open>encrypt_data\<close> of TTKv1.py; tiktok_kit_cli.py has the same two
  functions, statement for statement.
\<close>

definition ttk_empty_document :: pyval where
  "ttk_empty_document =
     PDict [(PStr ''users'', PDict []), (PStr ''analyses'', PList []),
            (PStr ''payments'', PDict [])]"

definition ttk_encrypt_data :: "lib \<Rightarrow> pyval \<Rightarrow> unit prog" where
  "ttk_encrypt_data L data =
     bnd (of_option TypeError (json_dumps L data)) (\<lambda>json_str.
     bnd (\<lambda>w. (Val (fernet_encrypt L (fernet_key w) json_str), w)) (\<lambda>encrypted.
     write_data_file encrypted))"

definition ttk_load_data :: "lib \<Rightarrow> pyval prog" where
  "ttk_load_data L = (\<lambda>w.
     case data_file w of
       Some content \<Rightarrow>
         bnd (read_data_file content) (\<lambda>encrypted.
         try_except
           (bnd (of_option ValueError (fernet_decrypt L (fernet_key w) encrypted)) (\<lambda>decrypted.
            of_option ValueError (json_loads L decrypted)))
           (\<lambda>e. ret (PDict [])))
           w
     | None \<Rightarrow> ret ttk_empty_document w)"

definition ttk_get_user_data :: "lib \<Rightarrow> pyval \<Rightarrow> pyval prog" where
  "ttk_get_user_data L username =
     bnd (ttk_load_data L) (\<lambda>data.
     bnd (py_getitem data (PStr ''users'')) (\<lambda>users.
     py_get users username (PDict [])))"

text \<open>\<open>requests.get(url)\<close>, answered by the next reply; the log keeps the path.\<close>

definition requests_get :: "string \<Rightarrow> (nat \<times> pyval) prog" where
  "requests_get path = (\<lambda>w.
     case replies w of
       [] \<Rightarrow> (Exc RequestException, w\<lparr>posted := posted w @ [PStr path]\<rparr>)
     | Unreachable # rs \<Rightarrow>
         (Exc RequestException, w\<lparr>replies := rs, posted := posted w @ [PStr path]\<rparr>)
     | Reply status js # rs \<Rightarrow>
         (Val (status, js), w\<lparr>replies := rs, posted := posted w @ [PStr path]\<rparr>))"

fun prints :: "string list \<Rightarrow> unit prog" where
  "prints [] = ret ()"
| "prints (l # ls) = bnd (print l) (\<lambda>_. prints ls)"

text \<open>\<open>tiktok_oauth_login\<close> of TTKv1.py: the code is typed in by the user.\<close>

definition ttk_tiktok_oauth_login :: "lib \<Rightarrow> unit prog" where
  "ttk_tiktok_oauth_login L =
     bnd (ttk_load_data L) (\<lambda>data.
     bnd (py_get data (PStr ''creds'') (PDict [])) (\<lambda>creds.
     bnd (py_get creds (PStr ''tiktok_app_id'') PNone) (\<lambda>app_id.
     bnd (if truthy app_id then py_get creds (PStr ''tiktok_app_secret'') PNone
          else ret PNone) (\<lambda>app_secret.
     if \<not> truthy app_id \<or> \<not> truthy app_secret then
       print ''Set kredensial TikTok dulu di menu 9!''
     else
       bnd (py_get data (PStr ''current_user'') PNone) (\<lambda>current_user.
       bnd (if \<not> truthy current_user then
              bnd input (\<lambda>line.
              bnd (ret (PStr (strip line))) (\<lambda>username.
              bnd (py_setitem data (PStr ''current_user'') username) (\<lambda>data'.
              bnd (ttk_encrypt_data L data') (\<lambda>_.
              ret (username, data')))))
            else
              bnd (py_getitem data (PStr ''current_user'')) (\<lambda>username.
              ret (username, data))) (\<lambda>(username, data).
       bnd (prints [''=== LOGIN TIKTOK OAUTH ==='', ''Langkah-langkah:'',
                    ''1. Buka URL berikut di browser Anda.'',
                    ''2. Login ke akun TikTok Anda.'',
                    ''3. Salin code authorization dari URL redirect setelah login.'',
                    ''4. Masukkan code di sini.'']) (\<lambda>_.
       bnd (py_getitem creds (PStr ''tiktok_app_id'')) (\<lambda>_.
       bnd (print ''Buka URL ini'') (\<lambda>_.
       bnd input (\<lambda>_.
       bnd input (\<lambda>line.
       bnd (ret (strip line)) (\<lambda>auth_code.
       if auth_code = [] then print ''Code tidak valid!''
       else
         bnd (loading_spinner ''Menukar code dengan access token...'' 2) (\<lambda>_.
         bnd (py_getitem creds (PStr ''tiktok_app_id'')) (\<lambda>client_key.
         bnd (py_getitem creds (PStr ''tiktok_app_secret'')) (\<lambda>client_secret.
         try_except
           (bnd (requests_post
                  (login_exchange_data client_key client_secret (PStr auth_code))) (\<lambda>resp.
            bnd (raise_for_status resp) (\<lambda>_.
            bnd (py_get (snd resp) (PStr ''access_token'') PNone) (\<lambda>access_token.
            if truthy access_token then
              bnd (loading_spinner ''Memvalidasi token...'' 2) (\<lambda>_.
              bnd (requests_get ''/user/info/'') (\<lambda>val_resp.
              if fst val_resp = 200 then
                bnd now (\<lambda>t.
                bnd (ret (PDict [(PStr ''tiktok_access_token'', access_token),
                                 (PStr ''tier'', PStr ''basic''),
                                 (PStr ''login_time'', PStr (isoformat L t)),
                                 (PStr ''paid'', PBool False)])) (\<lambda>user_data.
                bnd (py_getitem data (PStr ''users'')) (\<lambda>users.
                bnd (py_setitem users username user_data) (\<lambda>users'.
                bnd (py_setitem data (PStr ''users'') users') (\<lambda>data'.
                bnd (py_setitem data' (PStr ''current_user'') username) (\<lambda>data''.
                bnd (ttk_encrypt_data L data'') (\<lambda>_.
                print ''Login TikTok OAuth berhasil! Token valid.'')))))))
              else print ''Token tidak valid. Periksa kredensial.''))
            else print ''Gagal mendapatkan token.''))))
           (\<lambda>e. if e = HTTPError \<or> e = RequestException then print ''Error OAuth''
                 else raise e))))))))))))))))"

section \<open>The invariant of the vault document\<close>

text \<open>
  \<open>vault_inv\<close>: when \<open>current_user\<close> is a username, \<open>users\<close> is a dict with an
  entry for it. \<open>holds_document L w d\<close>: the vault file holds the encryption of the
  serialisation of \<open>d\<close>. \<open>torn_document L w d\<close>: the vault file holds only a proper
  prefix of that encryption, as a write that failed leaves it. \<open>file_inv L w w'\<close>: from
  \<open>w\<close> to \<open>w'\<close> the vault file either has not changed, or holds a document with the
  invariant, or holds a fragment of such a document.
\<close>

definition vault_inv :: "pyval \<Rightarrow> bool" where
  "vault_inv d =
     (case d of
        PDict kvs \<Rightarrow>
          (case map_of kvs (PStr ''current_user'') of
             Some (PStr u) \<Rightarrow>
               (case map_of kvs (PStr ''users'') of
                  Some (PDict us) \<Rightarrow> PStr u \<in> set (map fst us)
                | _ \<Rightarrow> False)
           | _ \<Rightarrow> True)
      | _ \<Rightarrow> True)"

definition holds_document :: "lib \<Rightarrow> world \<Rightarrow> pyval \<Rightarrow> bool" where
  "holds_document L w d =
     (case json_dumps L d of
        None \<Rightarrow> False
      | Some s \<Rightarrow> data_file w = Some (fernet_encrypt L (fernet_key w) s))"

definition torn_document :: "lib \<Rightarrow> world \<Rightarrow> pyval \<Rightarrow> bool" where
  "torn_document L w d =
     (case json_dumps L d of
        None \<Rightarrow> False
      | Some s \<Rightarrow> \<exists>n < length (fernet_encrypt L (fernet_key w) s).
                    data_file w = Some (take n (fernet_encrypt L (fernet_key w) s)))"

definition file_inv :: "lib \<Rightarrow> world \<Rightarrow> world \<Rightarrow> bool" where
  "file_inv L w w' =
     (data_file w' = data_file w \<or>
      (\<exists>d. holds_document L w' d \<and> vault_inv d) \<or>
      (\<exists>d. torn_document L w' d \<and> vault_inv d))"

text \<open>
  For the proofs: \<open>same_file\<close> compares what \<open>load_data\<close> and \<open>encrypt_data\<close>
  depend on; a program \<open>keeps\<close> the file when it never changes these; it is \<open>good\<close>
  from \<open>w\<close> when, started on the file of \<open>w\<close>, it either keeps the file or ends,
  with no exception, having written a document with the invariant, fully or in part.
\<close>

definition same_file :: "world \<Rightarrow> world \<Rightarrow> bool" where
  "same_file w s = (data_file s = data_file w \<and> fernet_key s = fernet_key w \<and>
                    file_readable s = file_readable w)"

definition keeps :: "('s \<Rightarrow> world) \<Rightarrow> ('a, 's) sprog \<Rightarrow> bool" where
  "keeps g m = (\<forall>s r s'. m s = (r, s') \<longrightarrow> same_file (g s) (g s'))"

definition written :: "lib \<Rightarrow> world \<Rightarrow> bool" where
  "written L w = (\<exists>d. vault_inv d \<and> (holds_document L w d \<or> torn_document L w d))"

definition good :: "lib \<Rightarrow> ('s \<Rightarrow> world) \<Rightarrow> world \<Rightarrow> ('a, 's) sprog \<Rightarrow> bool" where
  "good L g w m = (\<forall>s r s'. same_file w (g s) \<and> m s = (r, s') \<longrightarrow>
                     same_file w (g s') \<or> ((\<forall>e. r \<noteq> Exc e) \<and> written L (g s')))"

section \<open>A small concrete library and concrete worlds\<close>

text \<open>
  Stand-ins for the libraries, used to run the definitions on concrete inputs: timestamps
  in unary, encryption that prefixes the key, a serialiser to a text without escapes, and a
  parser that knows the texts of the documents named below.
\<close>

definition toy_isoformat :: "int \<Rightarrow> string" where
  "toy_isoformat t = replicate (nat t) (CHR ''I'')"

definition toy_fromisoformat :: "string \<Rightarrow> int option" where
  "toy_fromisoformat s =
     (if s \<noteq> [] \<and> list_all (\<lambda>c. c = CHR ''I'') s then Some (int (length s)) else None)"

definition toy_encrypt :: "string \<Rightarrow> string \<Rightarrow> string" where
  "toy_encrypt k m = k @ m"

definition toy_decrypt :: "string \<Rightarrow> string \<Rightarrow> string option" where
  "toy_decrypt k c = (if take (length k) c = k then Some (drop (length k) c) else None)"

fun render :: "pyval \<Rightarrow> string" where
  "render PNone = ''null''"
| "render (PBool b) = (if b then ''true'' else ''false'')"
| "render (PInt i) = (if i < 0 then ''-'' else ''+'') @ replicate (nat \<bar>i\<bar>) (CHR ''1'')"
| "render (PStr s) = ''<'' @ s @ ''>''"
| "render (PList xs) = ''['' @ concat (map (\<lambda>x. render x @ '','') xs) @ '']''"
| "render (PDict kvs) =
     ''{'' @ concat (map (\<lambda>kv. render (fst kv) @ '':'' @ render (snd kv) @ '','') kvs) @ ''}''"

definition alice_session :: pyval where
  "alice_session =
     PDict [(PStr ''tiktok_access_token'', PStr ''T''), (PStr ''refresh_token'', PStr ''R''),
            (PStr ''expires_at'', PStr ''III'')]"

definition toy_creds :: pyval where
  "toy_creds = PDict [(PStr ''tiktok_app_id'', PStr ''id''),
                      (PStr ''tiktok_app_secret'', PStr ''secret'')]"

definition alice_vault :: pyval where
  "alice_vault =
     PDict [(PStr ''users'', PDict [(PStr ''alice'', alice_session)]),
            (PStr ''analyses'', PList []),
            (PStr ''creds'', toy_creds),
            (PStr ''current_user'', PStr ''alice'')]"

definition creds_vault :: pyval where
  "creds_vault =
     PDict [(PStr ''users'', PDict []), (PStr ''analyses'', PList []),
            (PStr ''creds'', toy_creds), (PStr ''current_user'', PNone)]"

definition bob_session :: pyval where
  "bob_session =
     PDict [(PStr ''tiktok_access_token'', PStr ''B''),
            (PStr ''expires_at'', PStr ''IIIIIIIIIIIIIIIIIIII'')]"

definition shared_vault :: pyval where
  "shared_vault =
     PDict [(PStr ''users'', PDict [(PStr ''alice'', alice_session), (PStr ''bob'', bob_session)]),
            (PStr ''analyses'', PList []),
            (PStr ''creds'', toy_creds),
            (PStr ''current_user'', PStr ''bob'')]"

definition token_reply :: reply where
  "token_reply = Reply 200 (PDict [(PStr ''access_token'', PStr ''T2''), (PStr ''expires_in'', PInt 5)])"

definition pending_vault :: pyval where
  "pending_vault =
     PDict [(PStr ''users'', PDict []), (PStr ''analyses'', PList []),
            (PStr ''creds'', toy_creds), (PStr ''current_user'', PStr ''alice'')]"

definition toy_loads :: "string \<Rightarrow> pyval option" where
  "toy_loads s = map_of (map (\<lambda>d. (render d, d)) [alice_vault, creds_vault, shared_vault, pending_vault]) s"

definition toy_lib :: lib where
  "toy_lib = \<lparr>json_dumps = (\<lambda>d. Some (render d)), json_loads = toy_loads,
              fernet_encrypt = toy_encrypt, fernet_decrypt = toy_decrypt,
              isoformat = toy_isoformat, fromisoformat = toy_fromisoformat\<rparr>"

text \<open>A world at time 10 with no vault file, and worlds whose vault file holds a document.\<close>

definition world0 :: world where
  "world0 = \<lparr>data_file = None, fernet_key = ''k'', file_readable = True, file_writable = True,
             write_fault = None, chmod_ok = True,
             clock = 10, replies = [], posted = [], slept = [], stdout = [], stdin = [],
             port_free = True\<rparr>"

definition world_of :: "pyval \<Rightarrow> world" where
  "world_of d = world0\<lparr>data_file := Some (toy_encrypt ''k'' (render d))\<rparr>"

text \<open>A callback with the state \<open>bob\<close> during the first sleep, and a server as \<open>start_local_server\<close> returns it.\<close>

definition bob_arrivals :: "nat \<Rightarrow> request list" where
  "bob_arrivals n = (if n = 0 then [[(''code'', ''ABC123''), (''state'', ''bob'')]] else [])"

definition closed_server :: server where
  "closed_server = \<lparr>auth_code = PNone, auth_state = PNone, socket_open = False, serving = True\<rparr>"

section \<open>Properties\<close>

subsection \<open>Auxiliary facts\<close>

lemmas prog_defs = ret_def raise_def sys_exit_def bnd_def try_except_def of_option_def print_def
  in_world_def get_local_def set_local_def now_def

lemmas toy_defs = toy_lib_def toy_loads_def toy_encrypt_def toy_decrypt_def toy_isoformat_def
  toy_fromisoformat_def world0_def world_of_def alice_vault_def alice_session_def
  creds_vault_def toy_creds_def shared_vault_def bob_session_def token_reply_def
  pending_vault_def

lemma load_data_cases:
  "load_data L w =
     (case data_file w of None \<Rightarrow> (Val empty_document, w)
      | Some c \<Rightarrow>
         (case (if file_readable w then fernet_decrypt L (fernet_key w) c else None) of
            None \<Rightarrow> (Val empty_document,
                     w\<lparr>stdout := stdout w @ [''Data load error. Resetting data.'']\<rparr>)
          | Some p \<Rightarrow> (case json_loads L p of
               None \<Rightarrow> (Val empty_document,
                        w\<lparr>stdout := stdout w @ [''Data load error. Resetting data.'']\<rparr>)
             | Some d \<Rightarrow> (Val d, w))))"
  by (auto simp: load_data_def read_data_file_def prog_defs split: option.splits)

lemma load_data_Val: "\<exists>d. fst (load_data L w) = Val d"
  by (simp add: load_data_cases split: option.splits)

lemma load_data_frame:
  "data_file (snd (load_data L w)) = data_file w \<and>
   fernet_key (snd (load_data L w)) = fernet_key w \<and>
   file_readable (snd (load_data L w)) = file_readable w \<and>
   file_writable (snd (load_data L w)) = file_writable w \<and>
   write_fault (snd (load_data L w)) = write_fault w \<and>
   chmod_ok (snd (load_data L w)) = chmod_ok w \<and>
   clock (snd (load_data L w)) = clock w \<and>
   replies (snd (load_data L w)) = replies w \<and>
   posted (snd (load_data L w)) = posted w \<and>
   slept (snd (load_data L w)) = slept w \<and>
   stdin (snd (load_data L w)) = stdin w \<and>
   port_free (snd (load_data L w)) = port_free w"
  by (simp add: load_data_cases split: option.splits)

lemma load_data_fst_cong:
  "data_file w1 = data_file w \<Longrightarrow> fernet_key w1 = fernet_key w \<Longrightarrow>
   file_readable w1 = file_readable w \<Longrightarrow> fst (load_data L w1) = fst (load_data L w)"
  by (simp add: load_data_cases split: option.splits)

lemma load_world0: "load_data toy_lib world0 = (Val empty_document, world0)"
  by (simp add: load_data_cases world0_def)

lemma refresh_attempt_failure:
  assumes "map_of kvs (PStr ''tiktok_access_token'') = Some a" "truthy a"
    and "map_of kvs (PStr ''expires_at'') = Some (PStr x)" "x \<noteq> []"
    and "fromisoformat L x = Some e" "e < clock w"
    and "map_of kvs (PStr ''refresh_token'') = Some rt" "truthy rt"
    and "load_data L w = (Val (PDict dkvs), w1)"
    and "dict_get dkvs (PStr ''creds'') (PDict []) = PDict ckvs"
    and "replies w = r # rs" "transient r \<or> rejected r"
  shows "refresh_attempt L (w, PDict kvs) =
          (Val False,
           (w1\<lparr>replies := rs,
               posted := posted w @ [refresh_exchange_data
                  (dict_get ckvs (PStr ''tiktok_app_id'') PNone)
                  (dict_get ckvs (PStr ''tiktok_app_secret'') PNone) rt],
               stdout := stdout w1 @ [if r = Unreachable
                                      then ''Request error during token refresh''
                                      else ''HTTP error during token refresh'']\<rparr>, PDict kvs))"
proof -
  have f: "replies w1 = replies w" "posted w1 = posted w" "clock w1 = clock w"
    using load_data_frame[of L w] assms(9) by simp_all
  show ?thesis
    using assms f
    by (cases r)
       (auto simp add: refresh_attempt_def refresh_body_def py_get_def parse_iso_def requests_post_def
          raise_for_status_def dict_get_def prog_defs)
qed

lemma refresh_attempt_expired_no_refresh:
  assumes "map_of kvs (PStr ''tiktok_access_token'') = Some a" "truthy a"
    and "map_of kvs (PStr ''expires_at'') = Some (PStr x)" "x \<noteq> []"
    and "fromisoformat L x = Some e" "e < clock w"
    and "\<not> truthy (dict_get kvs (PStr ''refresh_token'') PNone)"
  shows "refresh_attempt L (w, PDict kvs) = (Val True, (w, PDict kvs))"
  using assms
  by (simp add: refresh_attempt_def refresh_body_def py_get_def parse_iso_def dict_get_def prog_defs)

lemma serve_ill_formed:
  "\<forall>r\<in>set reqs. \<not> well_formed r \<Longrightarrow> serve reqs httpd = httpd"
  unfolding serve_def
  by (induction reqs arbitrary: httpd) (auto simp: do_GET_def well_formed_def Let_def)

lemma await_code_Some:
  assumes a: "await_code arrivals n httpd w = Some y"
  shows "truthy (auth_code (fst y)) \<and> data_file (snd y) = data_file w \<and>
         posted (snd y) = posted w \<and> (\<exists>k. fst y = server_after arrivals n k httpd)"
proof (rule await_code.raw_induct[OF _ a])
  fix f :: "(nat \<Rightarrow> request list) \<Rightarrow> nat \<Rightarrow> server \<Rightarrow> world \<Rightarrow> (server \<times> world) option"
  fix arrivals n httpd w y
  assume IH: "\<And>arrivals n httpd w y. f arrivals n httpd w = Some y \<Longrightarrow>
     truthy (auth_code (fst y)) \<and> data_file (snd y) = data_file w \<and>
     posted (snd y) = posted w \<and> (\<exists>k. fst y = server_after arrivals n k httpd)"
  assume eq: "(if truthy (auth_code httpd) then Some (httpd, w)
      else f arrivals (Suc n) (serve (arrivals n) httpd) (snd (sleep 1 w))) = Some y"
  show "truthy (auth_code (fst y)) \<and> data_file (snd y) = data_file w \<and>
        posted (snd y) = posted w \<and> (\<exists>k. fst y = server_after arrivals n k httpd)"
  proof (cases "truthy (auth_code httpd)")
    case True
    with eq have "y = (httpd, w)" by simp
    with True show ?thesis by (auto intro: exI[of _ 0])
  next
    case False
    with eq have r: "f arrivals (Suc n) (serve (arrivals n) httpd) (snd (sleep 1 w)) = Some y"
      by simp
    have s: "data_file (snd (sleep 1 w)) = data_file w" "posted (snd (sleep 1 w)) = posted w"
      by (simp_all add: sleep_def)
    from IH[OF r] s obtain k where
      "truthy (auth_code (fst y))" "data_file (snd y) = data_file w" "posted (snd y) = posted w"
      "fst y = server_after arrivals (Suc n) k (serve (arrivals n) httpd)"
      by auto
    then show ?thesis by (auto intro: exI[of _ "Suc k"])
  qed
qed

lemma server_after_ill_formed:
  "\<forall>n. \<forall>r\<in>set (arrivals n). \<not> well_formed r \<Longrightarrow> server_after arrivals n k httpd = httpd"
  by (induction k arbitrary: n httpd) (simp_all add: serve_ill_formed)

lemma await_code_never:
  assumes "\<forall>n. \<forall>r\<in>set (arrivals n). \<not> well_formed r" "\<not> truthy (auth_code httpd)"
  shows "await_code arrivals n httpd w = None"
proof (cases "await_code arrivals n httpd w")
  case None then show ?thesis .
next
  case (Some y)
  from await_code_Some[OF Some] server_after_ill_formed[OF assms(1)] assms(2)
  show ?thesis by auto
qed

lemma await_code_captured:
  "truthy (auth_code (server_after arrivals n k httpd)) \<Longrightarrow>
     \<exists>y. await_code arrivals n httpd w = Some y"
proof (induction k arbitrary: n httpd w)
  case 0
  then show ?case by (subst await_code.simps) simp
next
  case (Suc k)
  show ?case
  proof (cases "truthy (auth_code httpd)")
    case True
    then show ?thesis by (subst await_code.simps) simp
  next
    case False
    from Suc.IH[of "Suc n" "serve (arrivals n) httpd" "snd (sleep 1 w)"] Suc.prems
    obtain y where "await_code arrivals (Suc n) (serve (arrivals n) httpd) (snd (sleep 1 w)) = Some y"
      by auto
    with False show ?thesis by (subst await_code.simps) simp
  qed
qed

lemma load_data_failure_empty:
  assumes "data_file w = None \<or> \<not> file_readable w \<or>
           (\<exists>c. data_file w = Some c \<and> (fernet_decrypt L (fernet_key w) c = None \<or>
              (\<exists>p. fernet_decrypt L (fernet_key w) c = Some p \<and> json_loads L p = None)))"
  shows "fst (load_data L w) = Val empty_document"
  using assms by (auto simp: load_data_cases split: option.splits)

lemma validate_input_frame:
  "validate_input v r w = (res, w') \<Longrightarrow> data_file w' = data_file w \<and> posted w' = posted w"
  by (auto simp: validate_input_def split: prod.splits option.splits)

lemma begin_login_frame:
  assumes "begin_login creds w = (res, w')"
  shows "data_file w' = data_file w \<and> posted w' = posted w"
proof -
  obtain r1 w1 where v: "validate_input None True w = (r1, w1)" by (cases "validate_input None True w")
  from validate_input_frame[OF v] assms v show ?thesis
    by (cases r1)
       (auto simp: begin_login_def start_local_server_def tcp_server_def py_getitem_def prog_defs
          split: if_splits prod.splits res.splits pyval.splits option.splits)
qed

lemma begin_login_alice:
  "begin_login toy_creds (w\<lparr>stdin := [''alice''], port_free := True\<rparr>) =
     (Val (''alice'', closed_server),
      w\<lparr>stdin := [], port_free := True,
        stdout := stdout w @ [''=== OAUTH LOGIN ==='', ''Opening browser for authorization...'']\<rparr>)"
  by (simp add: begin_login_def validate_input_def strip_def is_space_def py_getitem_def
      start_local_server_def tcp_server_def server_close_def closed_server_def toy_creds_def prog_defs)

lemma await_bob:
  "await_code bob_arrivals 0 closed_server w =
     Some (closed_server\<lparr>auth_code := PStr ''ABC123'', auth_state := PStr ''bob''\<rparr>,
           w\<lparr>clock := clock w + 1, slept := slept w @ [1]\<rparr>)"
  apply (subst await_code.simps)
  apply (simp add: closed_server_def)
  apply (subst await_code.simps)
  apply (simp add: bob_arrivals_def serve_def do_GET_def query_param_def sleep_def)
  done

lemma encrypt_data_cases:
  "encrypt_data L d w =
     (case json_dumps L d of
        None \<Rightarrow> (Exit 1, w\<lparr>stdout := stdout w @ [''Encryption error'']\<rparr>)
      | Some s \<Rightarrow>
          if \<not> file_writable w
          then (Exit 1, w\<lparr>stdout := stdout w @ [''Encryption error'']\<rparr>)
          else (case write_fault w of
                  Some n \<Rightarrow>
                    (Exit 1, w\<lparr>data_file := Some (take n (fernet_encrypt L (fernet_key w) s)),
                               stdout := stdout w @ [''Encryption error'']\<rparr>)
                | None \<Rightarrow>
                    if chmod_ok w
                    then (Val (), w\<lparr>data_file := Some (fernet_encrypt L (fernet_key w) s)\<rparr>)
                    else (Exit 1, w\<lparr>data_file := Some (fernet_encrypt L (fernet_key w) s),
                                    stdout := stdout w @ [''Encryption error'']\<rparr>)))"
  by (simp add: encrypt_data_def write_data_file_def chmod_data_file_def prog_defs
      split: option.splits)

lemma oauth_handlers_no_Exc: "fst (oauth_handlers rw) \<noteq> Exc e"
  by (cases rw) (auto simp: oauth_handlers_def print_def split: res.splits)

lemma oauth_attempt_no_Exc:
  assumes "oauth_attempt L data creds arrivals w = Some (r, w')"
  shows "r \<noteq> Exc e"
proof (cases "begin_login creds w")
  case (Pair r1 w1)
  show ?thesis
  proof (cases r1)
    case (Val uh)
    obtain u h where uh: "uh = (u, h)" by (cases uh)
    from assms Pair Val uh obtain h' w2 where
      "oauth_handlers (complete_login L data creds u h' w2) = (r, w')"
      by (auto simp: oauth_attempt_def split: option.splits)
    then show ?thesis using oauth_handlers_no_Exc[of "complete_login L data creds u h' w2" e]
      by (metis fst_conv)
  next
    case (Exc x)
    with assms Pair have "oauth_handlers (Exc x, w1) = (r, w')"
      by (simp add: oauth_attempt_def)
    then show ?thesis using oauth_handlers_no_Exc[of "(Exc x, w1)" e] by (metis fst_conv)
  next
    case (Exit n)
    with assms Pair show ?thesis by (auto simp: oauth_attempt_def)
  qed
qed

lemma login_Exc_iff_prefix:
  "\<forall>e w'. tiktok_oauth_login L arrivals w = Some (Exc e, w') \<longleftrightarrow>
           login_prefix L w = (Exc e, w')"
proof (intro allI)
  fix e w'
  obtain r1 w1 where p: "login_prefix L w = (r1, w1)" by (cases "login_prefix L w")
  show "tiktok_oauth_login L arrivals w = Some (Exc e, w') \<longleftrightarrow> login_prefix L w = (Exc e, w')"
  proof (cases r1)
    case (Val x)
    show ?thesis
    proof (cases x)
      case None
      with p Val show ?thesis by (simp add: tiktok_oauth_login_def)
    next
      case (Some dc)
      obtain data creds where dc: "dc = (data, creds)" by (cases dc)
      from p Val Some dc oauth_attempt_no_Exc[of L data creds arrivals w1 _ w' e]
      show ?thesis by (auto simp: tiktok_oauth_login_def)
    qed
  next
    case (Exc x)
    with p show ?thesis by (auto simp: tiktok_oauth_login_def)
  next
    case (Exit n)
    with p show ?thesis by (simp add: tiktok_oauth_login_def)
  qed
qed

lemma map_of_dict_set_same: "map_of (dict_set kvs k v) k = Some v"
  by (induction kvs k v rule: dict_set.induct) auto

lemma map_of_dict_set_other: "k' \<noteq> k \<Longrightarrow> map_of (dict_set kvs k v) k' = map_of kvs k'"
  by (induction kvs k v rule: dict_set.induct) auto

lemma bnd_Val:
  "bnd m f s = (Val x, s') \<longleftrightarrow> (\<exists>y s1. m s = (Val y, s1) \<and> f y s1 = (Val x, s'))"
  by (auto simp: bnd_def split: prod.splits res.splits)

lemma try_except_Val:
  "try_except m h s = (Val x, s') \<longleftrightarrow>
     (m s = (Val x, s') \<or> (\<exists>e s1. m s = (Exc e, s1) \<and> h e s1 = (Val x, s')))"
  by (auto simp: try_except_def split: prod.splits res.splits)

lemma in_world_eq:
  "in_world m (w, l) = (r, (w', l')) \<longleftrightarrow> m w = (r, w') \<and> l' = l"
  by (auto simp: in_world_def split: prod.splits)

lemma in_world_eq':
  "in_world m s = (r, s') \<longleftrightarrow> m (fst s) = (r, fst s') \<and> snd s' = snd s"
  by (cases s; cases s') (simp add: in_world_eq)

lemma ret_eq: "ret x s = (r, s') \<longleftrightarrow> r = Val x \<and> s' = s"
  by (auto simp: ret_def)

lemma raise_Val: "raise e s = (Val x, s') \<longleftrightarrow> False"
  by (simp add: raise_def)

lemma get_local_eq: "get_local s = (r, s') \<longleftrightarrow> r = Val (snd s) \<and> s' = s"
  by (cases s) (auto simp: get_local_def)

lemma set_local_eq: "set_local l s = (r, s') \<longleftrightarrow> r = Val () \<and> s' = (fst s, l)"
  by (cases s) (auto simp: set_local_def)

lemma py_get_Val:
  "py_get x k d s = (Val v, s') \<longleftrightarrow>
     (\<exists>kvs. x = PDict kvs \<and> hashable k \<and> v = dict_get kvs k d \<and> s' = s)"
  by (auto simp: py_get_def ret_def raise_def split: pyval.splits)

lemma py_getitem_dict_Val:
  "py_getitem (PDict kvs) k s = (Val v, s') \<longleftrightarrow> (hashable k \<and> map_of kvs k = Some v \<and> s' = s)"
  by (auto simp: py_getitem_def ret_def raise_def of_option_def split: option.splits)

lemma py_setitem_dict_Val:
  "py_setitem (PDict kvs) k v s = (Val x, s') \<longleftrightarrow>
     (hashable k \<and> x = PDict (dict_set kvs k v) \<and> s' = s)"
  by (auto simp: py_setitem_def ret_def raise_def)

lemma set_user_data_Val:
  "set_user_data k v s = (Val u, s') \<longleftrightarrow>
     (\<exists>x. py_setitem (snd s) (PStr k) v s = (Val x, s) \<and> s' = (fst s, x))"
  by (cases s)
     (auto simp: set_user_data_def bnd_Val get_local_eq set_local_eq py_setitem_def ret_def raise_def
       split: pyval.splits option.splits)

lemma encrypt_data_Val:
  "encrypt_data L d w = (Val u, w') \<longleftrightarrow>
     (\<exists>s. json_dumps L d = Some s \<and> file_writable w \<and> write_fault w = None \<and> chmod_ok w \<and>
          w' = w\<lparr>data_file := Some (fernet_encrypt L (fernet_key w) s)\<rparr>)"
  by (auto simp: encrypt_data_cases split: option.splits)

lemma requests_post_frame:
  "requests_post b w = (r, w') \<Longrightarrow>
     data_file w' = data_file w \<and> fernet_key w' = fernet_key w \<and> file_readable w' = file_readable w
     \<and> posted w' = posted w @ [b]"
  by (auto simp: requests_post_def split: list.splits reply.splits)

lemma now_eq: "now w = (r, w') \<longleftrightarrow> r = Val (clock w) \<and> w' = w"
  by (auto simp: now_def)

lemma print_eq: "print s w = (r, w') \<longleftrightarrow> r = Val () \<and> w' = w\<lparr>stdout := stdout w @ [s]\<rparr>"
  by (auto simp: print_def)

lemma load_data_eq:
  "load_data L w = (r, w') \<longleftrightarrow>
     r = fst (load_data L w) \<and> w' = w\<lparr>stdout := stdout (snd (load_data L w))\<rparr>"
  by (auto simp: load_data_cases split: option.splits)

lemma load_data_fst_upd [simp]:
  "fst (load_data L (w\<lparr>stdout := a\<rparr>)) = fst (load_data L w)"
  "fst (load_data L (w\<lparr>replies := b\<rparr>)) = fst (load_data L w)"
  "fst (load_data L (w\<lparr>posted := c\<rparr>)) = fst (load_data L w)"
  "fst (load_data L (w\<lparr>clock := d\<rparr>)) = fst (load_data L w)"
  "fst (load_data L (w\<lparr>slept := e\<rparr>)) = fst (load_data L w)"
  by (simp_all add: load_data_cases split: option.splits)

lemma requests_post_Val:
  "requests_post b w = (Val resp, w') \<longleftrightarrow>
     (\<exists>rs. replies w = Reply (fst resp) (snd resp) # rs \<and>
           w' = w\<lparr>replies := rs, posted := posted w @ [b]\<rparr>)"
  by (cases resp) (auto simp: requests_post_def split: list.splits reply.splits)

lemma raise_for_status_Val:
  "raise_for_status resp s = (Val u, s') \<longleftrightarrow> (\<not> (400 \<le> fst resp \<and> fst resp < 600) \<and> s' = s)"
  by (auto simp: raise_for_status_def ret_def raise_def)

lemma parse_iso_Val:
  "parse_iso L x s = (Val t, s') \<longleftrightarrow> (\<exists>str. x = PStr str \<and> fromisoformat L str = Some t \<and> s' = s)"
  by (auto simp: parse_iso_def of_option_def ret_def raise_def split: pyval.splits option.splits)

lemma plus_seconds_Val:
  "plus_seconds L t x s = (Val v, s') \<longleftrightarrow>
     (\<exists>n. as_index x = Some n \<and> \<not> \<bar>n\<bar> > timedelta_max \<and>
          \<not> (t + n < datetime_min \<or> datetime_max < t + n) \<and>
          v = PStr (isoformat L (t + n)) \<and> s' = s)"
  by (auto simp: plus_seconds_def ret_def raise_def split: option.splits if_splits)

lemma refresh_attempt_True:
  assumes "refresh_attempt L (w, user_data) = (Val True, (w', user_data'))"
    and "posted w' \<noteq> posted w"
    and "fst (load_data L w) = Val (PDict dkvs)"
    and "map_of dkvs (PStr ''users'') = Some (PDict us)"
  shows "\<exists>cu s. map_of dkvs (PStr ''current_user'') = Some cu \<and> hashable cu \<and>
           json_dumps L (PDict (dict_set dkvs (PStr ''users'')
                                  (PDict (dict_set us cu user_data')))) = Some s \<and>
           data_file w' = Some (fernet_encrypt L (fernet_key w) s)"
  using assms
  apply (simp add: refresh_attempt_def refresh_body_def try_except_Val bnd_Val get_local_eq py_get_Val ret_eq
       in_world_eq' now_eq print_eq raise_Val set_user_data_Val encrypt_data_Val
       load_data_eq requests_post_Val raise_for_status_Val parse_iso_Val plus_seconds_Val
       py_getitem_dict_Val py_setitem_dict_Val
       split: if_splits cong: conj_cong)
  apply (auto simp add: py_getitem_dict_Val py_setitem_dict_Val)
  done

lemma shared_refresh:
  "\<exists>w' user_data'.
     refresh_attempt toy_lib ((world_of shared_vault)\<lparr>replies := [token_reply]\<rparr>, alice_session)
       = (Val True, (w', user_data')) \<and>
     posted w' \<noteq> [] \<and>
     user_data' = PDict [(PStr ''tiktok_access_token'', PStr ''T2''), (PStr ''refresh_token'', PStr ''R''),
            (PStr ''expires_at'', PStr (toy_isoformat 15))]"
  by (simp add: refresh_attempt_def refresh_body_def load_data_cases encrypt_data_cases py_get_def py_getitem_def
      py_setitem_def set_user_data_def parse_iso_def plus_seconds_def requests_post_def
      raise_for_status_def dict_get_def refresh_exchange_data_def
      timedelta_max_def datetime_min_def datetime_max_def
      toy_defs prog_defs)


lemma keeps_ret: "keeps g (ret x)" by (simp add: keeps_def ret_def same_file_def)
lemma keeps_raise: "keeps g (raise e)" by (simp add: keeps_def raise_def same_file_def)
lemma keeps_sys_exit: "keeps g (sys_exit n)" by (simp add: keeps_def sys_exit_def same_file_def)
lemma keeps_of_option: "keeps g (of_option e x)"
  by (cases x) (simp_all add: of_option_def keeps_ret keeps_raise)

lemma keeps_bnd: "keeps g m \<Longrightarrow> (\<And>x. keeps g (f x)) \<Longrightarrow> keeps g (bnd m f)"
  unfolding keeps_def bnd_def same_file_def
  by (auto split: prod.splits res.splits)

lemma keeps_try: "keeps g m \<Longrightarrow> (\<And>e. keeps g (h e)) \<Longrightarrow> keeps g (try_except m h)"
  unfolding keeps_def try_except_def same_file_def
  by (auto split: prod.splits res.splits)

lemma keeps_if: "(c \<Longrightarrow> keeps g a) \<Longrightarrow> (\<not> c \<Longrightarrow> keeps g b) \<Longrightarrow> keeps g (if c then a else b)"
  by simp

lemma keeps_py_get: "keeps g (py_get x k d)"
  by (auto simp: py_get_def keeps_ret keeps_raise split: pyval.splits)
lemma keeps_py_getitem: "keeps g (py_getitem x k)"
  by (auto simp: py_getitem_def keeps_ret keeps_raise keeps_of_option split: pyval.splits option.splits)
lemma keeps_py_setitem: "keeps g (py_setitem x k v)"
  by (auto simp: py_setitem_def keeps_ret keeps_raise split: pyval.splits option.splits)
lemma keeps_py_contains: "keeps g (py_contains x k)"
  by (auto simp: py_contains_def keeps_ret keeps_raise split: pyval.splits)
lemma keeps_py_delitem: "keeps g (py_delitem x k)"
  by (auto simp: py_delitem_def keeps_ret keeps_raise split: pyval.splits option.splits)
lemma keeps_raise_for_status: "keeps g (raise_for_status r)"
  by (simp add: raise_for_status_def keeps_ret keeps_raise)
lemma keeps_parse_iso: "keeps g (parse_iso L x)"
  by (auto simp: parse_iso_def keeps_of_option keeps_raise split: pyval.splits)
lemma keeps_plus_seconds: "keeps g (plus_seconds L t x)"
  by (auto simp: plus_seconds_def keeps_ret keeps_raise split: option.splits)

lemma keeps_print: "keeps id (print s)" by (simp add: keeps_def print_def same_file_def)
lemma keeps_now: "keeps id now" by (simp add: keeps_def now_def same_file_def)
lemma keeps_sleep: "keeps id (sleep d)" by (simp add: keeps_def sleep_def same_file_def)
lemma keeps_input: "keeps id input" by (auto simp: keeps_def input_def same_file_def split: list.splits)
lemma keeps_validate_input: "keeps id (validate_input v r)"
  by (auto simp: keeps_def validate_input_def same_file_def split: prod.splits option.splits)
lemma keeps_loading_spinner: "keeps id (loading_spinner m d)"
  by (simp add: loading_spinner_def keeps_bnd keeps_sleep keeps_print)
lemma keeps_requests_post: "keeps id (requests_post b)"
  by (auto simp: keeps_def requests_post_def same_file_def split: list.splits reply.splits)
lemma keeps_load_data: "keeps id (load_data L)"
  unfolding keeps_def same_file_def
proof (intro allI impI)
  fix s r s'
  assume "load_data L s = (r, s')"
  with load_data_frame[of L s]
  show "data_file (id s') = data_file (id s) \<and> fernet_key (id s') = fernet_key (id s) \<and>
        file_readable (id s') = file_readable (id s)"
    by simp
qed

lemma keeps_in_world: "keeps id m \<Longrightarrow> keeps fst (in_world m)"
  by (auto simp: keeps_def in_world_def same_file_def split: prod.splits)
lemma keeps_get_local: "keeps fst get_local" by (auto simp: keeps_def get_local_def same_file_def)
lemma keeps_set_local: "keeps fst (set_local l)" by (auto simp: keeps_def set_local_def same_file_def)
lemma keeps_set_user_data: "keeps fst (set_user_data k v)"
  by (simp add: set_user_data_def keeps_bnd keeps_get_local keeps_set_local keeps_py_setitem)

lemmas keeps_intros = keeps_ret keeps_raise keeps_sys_exit keeps_of_option keeps_bnd keeps_try
  keeps_if keeps_py_get keeps_py_getitem keeps_py_setitem keeps_py_contains keeps_py_delitem
  keeps_raise_for_status keeps_parse_iso keeps_plus_seconds keeps_print keeps_now keeps_sleep
  keeps_input keeps_validate_input keeps_loading_spinner keeps_requests_post keeps_load_data
  keeps_in_world keeps_get_local keeps_set_local keeps_set_user_data

lemma good_keeps: "keeps g m \<Longrightarrow> good L g w m"
  by (auto simp: keeps_def good_def same_file_def)

lemma good_bnd:
  assumes "keeps g m"
    and "\<And>x s s1. same_file w (g s) \<Longrightarrow> m s = (Val x, s1) \<Longrightarrow> good L g w (f x)"
  shows "good L g w (bnd m f)"
  unfolding good_def
proof (intro allI impI)
  fix s r s'
  assume a: "same_file w (g s) \<and> bnd m f s = (r, s')"
  obtain r1 s1 where m: "m s = (r1, s1)" by (cases "m s")
  from assms(1) m have k: "same_file (g s) (g s1)" by (simp add: keeps_def)
  with a have k': "same_file w (g s1)" by (simp add: same_file_def)
  show "same_file w (g s') \<or> ((\<forall>e. r \<noteq> Exc e) \<and> written L (g s'))"
  proof (cases r1)
    case (Val x)
    from assms(2)[of s x s1] a m Val have "good L g w (f x)" by simp
    moreover from a m Val have "f x s1 = (r, s')" by (simp add: bnd_def)
    ultimately show ?thesis using k' unfolding good_def by blast
  next
    case (Exc e)
    with a m have "s' = s1" by (simp add: bnd_def)
    with k' show ?thesis by simp
  next
    case (Exit n)
    with a m have "s' = s1" by (simp add: bnd_def)
    with k' show ?thesis by simp
  qed
qed

lemma keeps_env_or: "keeps id prompt \<Longrightarrow> keeps id (env_or getenv name prompt)"
  by (auto simp: env_or_def keeps_ret split: option.splits)

lemma keeps_set_cred: "keeps id value \<Longrightarrow> keeps id (set_cred creds name value)"
  by (simp add: set_cred_def keeps_bnd keeps_py_setitem)

lemma good_if:
  "(c \<Longrightarrow> good L g w a) \<Longrightarrow> (\<not> c \<Longrightarrow> good L g w b) \<Longrightarrow> good L g w (if c then a else b)"
  by simp

lemma holds_document_same:
  "holds_document L s d \<Longrightarrow> same_file s s' \<Longrightarrow> holds_document L s' d"
  by (auto simp: holds_document_def same_file_def split: option.splits)

lemma good_try:
  assumes "good L g w m" and "\<And>e. keeps g (h e)"
  shows "good L g w (try_except m h)"
  unfolding good_def
proof (intro allI impI)
  fix s r s'
  assume a: "same_file w (g s) \<and> try_except m h s = (r, s')"
  obtain r1 s1 where m: "m s = (r1, s1)" by (cases "m s")
  from assms(1) a m
  have g1: "same_file w (g s1) \<or> ((\<forall>e. r1 \<noteq> Exc e) \<and> written L (g s1))"
    unfolding good_def by blast
  show "same_file w (g s') \<or> ((\<forall>e. r \<noteq> Exc e) \<and> written L (g s'))"
  proof (cases r1)
    case (Exc e)
    with a m have "h e s1 = (r, s')" by (simp add: try_except_def)
    with assms(2)[of e] have k: "same_file (g s1) (g s')" by (simp add: keeps_def)
    from g1 Exc have "same_file w (g s1)" by simp
    with k show ?thesis by (simp add: same_file_def)
  next
    case (Val x)
    with a m have "s' = s1" "r = r1" by (simp_all add: try_except_def)
    with g1 show ?thesis by simp
  next
    case (Exit n)
    with a m have "s' = s1" "r = r1" by (simp_all add: try_except_def)
    with g1 show ?thesis by simp
  qed
qed

lemma good_retry_aux:
  "good L fst w f \<Longrightarrow> same_file w (fst s) \<Longrightarrow> retry f attempt s = (r, s') \<Longrightarrow>
   same_file w (fst s') \<or> ((\<forall>e. r \<noteq> Exc e) \<and> written L (fst s'))"
proof (induction f attempt s rule: retry.induct)
  case (1 f attempt s)
  obtain r1 s1 where m: "f s = (r1, s1)" by (cases "f s")
  from 1(2,3) m
  have g1: "same_file w (fst s1) \<or> ((\<forall>e. r1 \<noteq> Exc e) \<and> written L (fst s1))"
    unfolding good_def by blast
  show ?case
  proof (cases r1)
    case (Exc e)
    with g1 have sf: "same_file w (fst s1)" by simp
    show ?thesis
    proof (cases "stop_after_attempt 3 attempt")
      case True
      with 1(4) m Exc have "s' = s1" by simp
      with sf show ?thesis by simp
    next
      case False
      let ?s2 = "snd (in_world (sleep (wait_exponential 1 4 10 attempt)) s1)"
      have sf2: "same_file w (fst ?s2)"
        using sf by (cases s1) (simp add: in_world_def sleep_def same_file_def)
      from 1(4) m Exc False have "retry f (Suc attempt) ?s2 = (r, s')" by simp
      then show ?thesis using "1.IH"[OF m[symmetric] Exc False 1(2) sf2] by simp
    qed
  next
    case (Val x)
    with 1(4) m have "s' = s1" "r = r1" by simp_all
    with g1 show ?thesis by simp
  next
    case (Exit n)
    with 1(4) m have "s' = s1" "r = r1" by simp_all
    with g1 show ?thesis by simp
  qed
qed

lemma good_retry: "good L fst w f \<Longrightarrow> good L fst w (retry f attempt)"
  unfolding good_def[of L fst w "retry f attempt"] using good_retry_aux by blast

lemma written_cong:
  assumes "data_file w' = data_file w" "fernet_key w' = fernet_key w"
  shows "written L w' = written L w"
  unfolding written_def holds_document_def torn_document_def assms by (rule refl)

lemma encrypt_data_written:
  assumes "vault_inv d" and "encrypt_data L d w = (r, w')"
  shows "(data_file w' = data_file w \<and> fernet_key w' = fernet_key w \<and>
          file_readable w' = file_readable w) \<or> ((\<forall>e. r \<noteq> Exc e) \<and> written L w')"
proof (cases "json_dumps L d")
  case None
  with assms(2) show ?thesis by (auto simp: encrypt_data_cases)
next
  case (Some t)
  let ?c = "fernet_encrypt L (fernet_key w) t"
  show ?thesis
  proof (cases "file_writable w")
    case False
    with assms(2) Some show ?thesis by (auto simp: encrypt_data_cases)
  next
    case True
    show ?thesis
    proof (cases "write_fault w")
      case None
      with assms True Some have "(\<forall>e. r \<noteq> Exc e) \<and> holds_document L w' d"
        by (auto simp: encrypt_data_cases holds_document_def split: if_splits)
      with assms(1) show ?thesis unfolding written_def by blast
    next
      case (Some n)
      with assms(2) True \<open>json_dumps L d = Some t\<close>
      have r: "r = Exit 1" and f: "data_file w' = Some (take n ?c)" and k: "fernet_key w' = fernet_key w"
        by (auto simp: encrypt_data_cases)
      have "holds_document L w' d \<or> torn_document L w' d"
      proof (cases "n < length ?c")
        case True
        with f k \<open>json_dumps L d = Some t\<close> have "torn_document L w' d"
          by (auto simp: torn_document_def)
        then show ?thesis ..
      next
        case False
        with f k \<open>json_dumps L d = Some t\<close> have "holds_document L w' d"
          by (simp add: holds_document_def)
        then show ?thesis ..
      qed
      with assms(1) r show ?thesis unfolding written_def by blast
    qed
  qed
qed

lemma good_save: "vault_inv d \<Longrightarrow> good L id w (bnd (encrypt_data L d) (\<lambda>_. print s))"
  unfolding good_def
proof (intro allI impI)
  fix s0 r s'
  assume v: "vault_inv d"
  assume a: "same_file w (id s0) \<and> bnd (encrypt_data L d) (\<lambda>_. print s) s0 = (r, s')"
  obtain r1 s1 where e: "encrypt_data L d s0 = (r1, s1)" by (cases "encrypt_data L d s0")
  from a e have s': "data_file s' = data_file s1 \<and> fernet_key s' = fernet_key s1 \<and>
      file_readable s' = file_readable s1 \<and> ((\<forall>e. r1 \<noteq> Exc e) \<longrightarrow> (\<forall>e. r \<noteq> Exc e))"
    by (cases r1) (auto simp: bnd_def print_def)
  then have "written L s' = written L s1" by (intro written_cong) simp_all
  with encrypt_data_written[OF v e] a s'
  show "same_file w (id s') \<or> ((\<forall>e. r \<noteq> Exc e) \<and> written L (id s'))"
    by (auto simp: same_file_def)
qed

lemma good_save_local:
  "vault_inv d \<Longrightarrow> good L fst w (bnd (in_world (encrypt_data L d)) (\<lambda>_. ret x))"
  unfolding good_def
proof (intro allI impI)
  fix s0 r s'
  assume v: "vault_inv d"
  assume a: "same_file w (fst s0) \<and> bnd (in_world (encrypt_data L d)) (\<lambda>_. ret x) s0 = (r, s')"
  obtain r1 s1 where e: "encrypt_data L d (fst s0) = (r1, s1)"
    by (cases "encrypt_data L d (fst s0)")
  from a e have "fst s' = s1 \<and> ((\<forall>e. r1 \<noteq> Exc e) \<longrightarrow> (\<forall>e. r \<noteq> Exc e))"
    by (cases r1; cases s0) (auto simp: bnd_def in_world_def ret_def)
  with encrypt_data_written[OF v e] a
  show "same_file w (fst s') \<or> ((\<forall>e. r \<noteq> Exc e) \<and> written L (fst s'))"
    by (auto simp: same_file_def)
qed

lemma dict_set_keys: "k \<in> set (map fst (dict_set kvs k v))"
  by (induction kvs k v rule: dict_set.induct) auto

lemma py_setitem_str_Val:
  "py_setitem x (PStr k) v s = (Val y, s') \<longleftrightarrow>
     (\<exists>kvs. x = PDict kvs \<and> y = PDict (dict_set kvs (PStr k) v) \<and> s' = s)"
  by (auto simp: py_setitem_def ret_def raise_def split: pyval.splits)

lemma py_getitem_str_Val:
  "py_getitem x (PStr k) s = (Val v, s') \<longleftrightarrow>
     (\<exists>kvs. x = PDict kvs \<and> map_of kvs (PStr k) = Some v \<and> s' = s)"
  by (auto simp: py_getitem_def ret_def raise_def of_option_def split: pyval.splits option.splits)

lemma py_setitem_Val_cases:
  assumes "py_setitem x k v s = (Val y, s')"
  shows "(\<exists>kvs. x = PDict kvs \<and> y = PDict (dict_set kvs k v)) \<or> (\<exists>xs. x = PList xs \<and> k \<noteq> PStr u)"
  using assms
  by (auto simp: py_setitem_def ret_def raise_def split: pyval.splits option.splits if_splits)

lemma dict_set_keys_image: "k \<in> fst ` set (dict_set kvs k v)"
  using dict_set_keys[of k kvs v] by simp

lemma vault_inv_logout: "vault_inv (PDict (dict_set kvs (PStr ''current_user'') PNone))"
  by (simp add: vault_inv_def map_of_dict_set_same)

lemma vault_inv_login:
  "vault_inv (PDict (dict_set (dict_set kvs (PStr ''users'') (PDict (dict_set us (PStr u) v)))
                      (PStr ''current_user'') (PStr u)))"
  by (simp add: vault_inv_def map_of_dict_set_same map_of_dict_set_other dict_set_keys_image)

lemma vault_inv_creds:
  "vault_inv (PDict kvs) \<Longrightarrow> vault_inv (PDict (dict_set kvs (PStr ''creds'') c))"
  by (auto simp: vault_inv_def map_of_dict_set_other split: option.splits pyval.splits)

lemma vault_inv_refresh:
  assumes "map_of kvs (PStr ''users'') = Some users" "map_of kvs (PStr ''current_user'') = Some cu"
    and "py_setitem users cu v s = (Val users', s')"
  shows "vault_inv (PDict (dict_set kvs (PStr ''users'') users'))"
proof (cases cu)
  case (PStr u)
  with assms(3) obtain us where "users = PDict us" "users' = PDict (dict_set us (PStr u) v)"
    by (auto simp: py_setitem_str_Val)
  with assms PStr show ?thesis
    by (simp add: vault_inv_def map_of_dict_set_same map_of_dict_set_other dict_set_keys_image)
qed (use assms in \<open>simp_all add: vault_inv_def map_of_dict_set_same map_of_dict_set_other\<close>)

lemma good_logout: "good L id w (logout L username)"
  unfolding logout_def logout_body_def
  apply (rule good_try)
   apply ((rule good_bnd, (intro keeps_intros; fail))+)
   apply (rule good_save)
   apply (auto simp: py_setitem_str_Val vault_inv_logout)[1]
  apply (rule keeps_print)
  done

lemma good_complete_login: "good L id w (complete_login L data creds username httpd)"
  unfolding complete_login_def
  apply (rule good_if)
   apply (rule good_keeps, rule keeps_print)
  apply ((rule good_bnd, (intro keeps_intros; fail))+)
  apply (rule good_if)
   apply ((rule good_bnd, (intro keeps_intros; fail))+)
   apply (rule good_save)
   apply (auto simp: py_setitem_str_Val py_getitem_str_Val ret_def vault_inv_login)[1]
  apply (rule good_keeps, rule keeps_ret)
  done

lemma good_refresh_body: "good L fst w (refresh_body L)"
  unfolding refresh_body_def
  apply ((rule good_bnd, (intro keeps_intros; fail))+)
  apply (rule good_if)
   apply (rule good_keeps, rule keeps_ret)
  apply ((rule good_bnd, (intro keeps_intros; fail))+)
  apply (rule good_if)
   apply ((rule good_bnd, (intro keeps_intros; fail))+)
   apply (rule good_if)
    apply ((rule good_bnd, (intro keeps_intros; fail))+)
    apply (rule good_save_local)
    apply (auto simp: py_setitem_str_Val py_getitem_str_Val intro: vault_inv_refresh)[1]
   apply (rule good_keeps, rule keeps_ret)
  apply (rule good_keeps, rule keeps_ret)
  done


lemma good_refresh_token_if_needed: "good L fst w (refresh_token_if_needed L)"
  unfolding refresh_token_if_needed_def refresh_attempt_def
  apply (rule good_retry)
  apply (rule good_try)
   apply (rule good_refresh_body)
  apply (intro keeps_intros)
  done

lemma creds_leaf:
  assumes "fst (load_data L w) = Val d0" "vault_inv d0"
    and "load_data L s = (Val x, s1)" "same_file w (id s)"
    and "py_setitem x (PStr ''creds'') c s2 = (Val y, s3)"
  shows "vault_inv y"
proof -
  from assms(4) have "fst (load_data L s) = fst (load_data L w)"
    by (intro load_data_fst_cong) (simp_all add: same_file_def)
  with assms(1,3) have "x = d0" by simp
  with assms(2,5) show ?thesis by (auto simp: py_setitem_str_Val intro: vault_inv_creds)
qed

lemma good_set_credentials:
  assumes "fst (load_data L w) = Val d0" "vault_inv d0"
  shows "good L id w (set_credentials L getenv)"
  unfolding set_credentials_def set_credentials_body_def
  apply (rule good_try)
   apply ((rule good_bnd, (intro keeps_intros keeps_env_or keeps_set_cred; fail))+)
   apply (rule good_if)
    apply (rule good_keeps, rule keeps_print)
   apply (rule good_bnd, (intro keeps_intros; fail))
   apply (rule good_save)
   apply (rule creds_leaf[OF assms], assumption+)
  apply (rule keeps_print)
  done

lemma good_file_inv_id:
  assumes "good L id w m" "m w = (r, w')"
  shows "file_inv L w w'"
proof -
  have "same_file w (id w)" by (simp add: same_file_def)
  with assms have "same_file w w' \<or> written L w'" unfolding good_def by fastforce
  then show ?thesis unfolding file_inv_def same_file_def written_def by blast
qed

lemma good_file_inv_fst:
  assumes "good L fst w m" "m (w, l) = (r, (w', l'))"
  shows "file_inv L w w'"
proof -
  have "same_file w (fst (w, l))" by (simp add: same_file_def)
  with assms have "same_file w (fst (w', l')) \<or> written L (fst (w', l'))"
    unfolding good_def by blast
  then show ?thesis unfolding file_inv_def same_file_def written_def by auto
qed

subsection \<open>Saving and loading\<close>

text \<open>
  C3. Saving a document that \<open>json.dumps\<close> accepts and that \<open>json.loads\<close> reads back
  from its text, and then loading it under the same key (which decrypts what it
  encrypted), returns that document.
\<close>

theorem save_then_load:
  assumes "json_dumps L D = Some s" and "json_loads L s = Some D"
    and "fernet_decrypt L (fernet_key w) (fernet_encrypt L (fernet_key w) s) = Some s"
    and "file_writable w" and "write_fault w = None" and "chmod_ok w" and "file_readable w"
  shows "fst (encrypt_data L D w) = Val () \<and>
         fernet_key (snd (encrypt_data L D w)) = fernet_key w \<and>
         fst (load_data L (snd (encrypt_data L D w))) = Val D"
  using assms
  by (simp add: encrypt_data_cases load_data_cases)

theorem save_then_load_witness:
  "fst (encrypt_data toy_lib alice_vault world0) = Val () \<and>
   fernet_key (snd (encrypt_data toy_lib alice_vault world0)) = fernet_key world0 \<and>
   fst (load_data toy_lib (snd (encrypt_data toy_lib alice_vault world0))) = Val alice_vault"
  by (rule save_then_load[where s = "render alice_vault"]) (simp_all add: toy_defs)

subsection \<open>Token refresh\<close>

text \<open>
  C4. When the session has expired and holds a refresh token, and the token endpoint
  answers the request with a transient failure (no connection or 5xx) or a rejection
  (4xx), whatever it would answer afterwards, \<open>refresh_token_if_needed\<close> returns
  \<open>False\<close> after that one request: at most three requests are made, no further one
  after the failure, and the waits made (none) increase.
\<close>

theorem refresh_failure_is_terminal:
  assumes "map_of kvs (PStr ''tiktok_access_token'') = Some a" "truthy a"
    and "map_of kvs (PStr ''expires_at'') = Some (PStr x)" "x \<noteq> []"
    and "fromisoformat L x = Some e" "e < clock w"
    and "map_of kvs (PStr ''refresh_token'') = Some rt" "truthy rt"
    and "fst (load_data L w) = Val (PDict dkvs)"
    and "dict_get dkvs (PStr ''creds'') (PDict []) = PDict ckvs"
    and "replies w = r # rs" "transient r \<or> rejected r"
  shows "\<exists>w'. refresh_token_if_needed L (w, PDict kvs) = (Val False, (w', PDict kvs)) \<and>
              length (posted w') = Suc (length (posted w)) \<and>
              length (posted w') \<le> length (posted w) + 3 \<and>
              replies w' = rs \<and>
              slept w' = slept w \<and>
              sorted_wrt (<) (drop (length (slept w)) (slept w')) \<and>
              data_file w' = data_file w"
proof -
  obtain w1 where l: "load_data L w = (Val (PDict dkvs), w1)"
    using assms(9) by (cases "load_data L w") simp
  have f: "slept w1 = slept w" "data_file w1 = data_file w"
    using load_data_frame[of L w] l by simp_all
  show ?thesis
    using refresh_attempt_failure[OF assms(1-8) l assms(10-12)] f
    by (simp add: refresh_token_if_needed_def)
qed

theorem refresh_failure_is_terminal_witness:
  "\<exists>w'. refresh_token_if_needed toy_lib
           (world0\<lparr>replies := [Reply 503 PNone, Unreachable, Reply 500 PNone]\<rparr>, alice_session) =
           (Val False, (w', alice_session)) \<and>
         length (posted w') = 1 \<and> replies w' = [Unreachable, Reply 500 PNone] \<and> slept w' = []"
  using refresh_failure_is_terminal[of
      "[(PStr ''tiktok_access_token'', PStr ''T''), (PStr ''refresh_token'', PStr ''R''),
        (PStr ''expires_at'', PStr ''III'')]"
      "PStr ''T''" "''III''" toy_lib 3
      "world0\<lparr>replies := [Reply 503 PNone, Unreachable, Reply 500 PNone]\<rparr>" "PStr ''R''"
      "[(PStr ''users'', PDict []), (PStr ''analyses'', PList []),
        (PStr ''creds'', PDict []), (PStr ''current_user'', PNone)]"
      "[]" "Reply 503 PNone" "[Unreachable, Reply 500 PNone]"]
  by (simp add: toy_defs load_data_cases empty_document_def dict_get_def) blast

text \<open>
  C5. For a session with an access token whose expiry lies in the past and whose refresh
  token is absent (or empty), \<open>refresh_token_if_needed\<close> returns \<open>True\<close>, the
  value it returns for a valid session, and changes nothing.
\<close>

theorem expired_without_refresh_token_reported_valid:
  assumes "map_of kvs (PStr ''tiktok_access_token'') = Some a" "truthy a"
    and "map_of kvs (PStr ''expires_at'') = Some (PStr x)" "x \<noteq> []"
    and "fromisoformat L x = Some e" "e < clock w"
    and "\<not> truthy (dict_get kvs (PStr ''refresh_token'') PNone)"
  shows "refresh_token_if_needed L (w, PDict kvs) = (Val True, (w, PDict kvs))"
  using refresh_attempt_expired_no_refresh[OF assms]
  by (simp add: refresh_token_if_needed_def)

theorem expired_without_refresh_token_witness:
  "refresh_token_if_needed toy_lib
     (world0, PDict [(PStr ''tiktok_access_token'', PStr ''T''), (PStr ''expires_at'', PStr ''III'')])
   = (Val True,
      (world0, PDict [(PStr ''tiktok_access_token'', PStr ''T''), (PStr ''expires_at'', PStr ''III'')]))"
  by (rule expired_without_refresh_token_reported_valid[where a = "PStr ''T''" and x = "''III''" and e = 3])
     (simp_all add: toy_defs dict_get_def)

subsection \<open>Loading a damaged vault\<close>

text \<open>
  C2. In TTKv1.py and tiktok_kit_cli.py, \<open>load_data\<close> on a vault file that cannot be
  decrypted or parsed returns the bare dict \<open>{}\<close>, which is not the fresh document
  of the missing-file branch and has no \<open>users\<close> entry: \<open>data["users"]\<close>, as in
  \<open>get_user_data\<close>, then raises \<open>KeyError\<close>. On the same file \<open>load_data\<close> of
  eldoore1.1.py returns the fresh empty document.
\<close>

theorem ttk_load_data_returns_bare_dict:
  assumes "data_file w = Some c" "file_readable w"
    and "fernet_decrypt L (fernet_key w) c = None \<or>
         (\<exists>p. fernet_decrypt L (fernet_key w) c = Some p \<and> json_loads L p = None)"
  shows "fst (ttk_load_data L w) = Val (PDict []) \<and>
         PDict [] \<noteq> ttk_empty_document \<and>
         fst (py_getitem (PDict []) (PStr ''users'') w) = Exc KeyError \<and>
         fst (ttk_get_user_data L username w) = Exc KeyError \<and>
         fst (load_data L w) = Val empty_document"
  using assms
  by (auto simp: ttk_load_data_def ttk_get_user_data_def read_data_file_def py_getitem_def
        ttk_empty_document_def load_data_cases prog_defs)

theorem ttk_load_data_returns_bare_dict_witness:
  "fst (ttk_load_data toy_lib (world0\<lparr>data_file := Some ''garbage''\<rparr>)) = Val (PDict []) \<and>
   fst (ttk_get_user_data toy_lib (PStr ''alice'') (world0\<lparr>data_file := Some ''garbage''\<rparr>))
     = Exc KeyError"
  using ttk_load_data_returns_bare_dict[of "world0\<lparr>data_file := Some ''garbage''\<rparr>"
          "''garbage''" toy_lib "PStr ''alice''"]
  by (simp add: toy_defs)

subsection \<open>The callback listener\<close>

text \<open>
  C7. Whenever \<open>start_local_server\<close> returns a server, the listening socket of that
  server has already been closed (by leaving the \<open>with\<close> block), although the serving
  thread has been started.
\<close>

theorem returned_server_is_closed:
  assumes "start_local_server w = (Val httpd, w')"
  shows "\<not> socket_open httpd \<and> serving httpd \<and> port_free w"
  using assms
  by (auto simp: start_local_server_def tcp_server_def server_close_def prog_defs
      split: if_splits)

theorem returned_server_is_closed_witness:
  "start_local_server world0 =
     (Val \<lparr>auth_code = PNone, auth_state = PNone, socket_open = False, serving = True\<rparr>,
      world0) \<and>
   \<not> socket_open \<lparr>auth_code = PNone, auth_state = PNone, socket_open = False, serving = True\<rparr>"
proof -
  have e: "start_local_server world0 =
     (Val \<lparr>auth_code = PNone, auth_state = PNone, socket_open = False, serving = True\<rparr>,
      world0)"
    by (simp add: start_local_server_def tcp_server_def server_close_def prog_defs world0_def)
  from returned_server_is_closed[OF e] e show ?thesis by simp
qed

subsection \<open>Login\<close>

text \<open>
  C1. In a login attempt (the \<open>try\<close> block of \<open>tiktok_oauth_login\<close>, entered with
  the document \<open>data\<close> and its credentials), when the wait ends with a captured state
  that differs from the username typed in, which is the state sent, the attempt prints the
  state-mismatch message and returns; the vault file is what it was when the attempt
  began, and nothing has been sent to the token endpoint.
\<close>

theorem state_mismatch_rejected:
  assumes "begin_login creds w = (Val (username, httpd), w1)"
    and "await_code arrivals 0 httpd w1 = Some (httpd', w2)"
    and "auth_state httpd' \<noteq> PStr username"
  shows "oauth_attempt L data creds arrivals w =
           Some (Val (), w2\<lparr>stdout := stdout w2 @ [''State mismatch in OAuth callback.'']\<rparr>) \<and>
         data_file w2 = data_file w \<and> posted w2 = posted w"
proof -
  from begin_login_frame[OF assms(1)] await_code_Some[OF assms(2)]
  have "data_file w2 = data_file w \<and> posted w2 = posted w" by simp
  then show ?thesis using assms
    by (simp add: oauth_attempt_def complete_login_def oauth_handlers_def print_def)
qed

theorem state_mismatch_rejected_witness:
  "\<exists>w'. oauth_attempt toy_lib creds_vault toy_creds bob_arrivals (world0\<lparr>stdin := [''alice'']\<rparr>)
           = Some (Val (), w') \<and>
        stdout w' = [''=== OAUTH LOGIN ==='', ''Opening browser for authorization...'',
                     ''State mismatch in OAuth callback.''] \<and>
        data_file w' = None \<and> posted w' = []"
proof -
  have b: "begin_login toy_creds (world0\<lparr>stdin := [''alice'']\<rparr>) =
     (Val (''alice'', closed_server),
      world0\<lparr>stdin := [], stdout := [''=== OAUTH LOGIN ==='', ''Opening browser for authorization...'']\<rparr>)"
    using begin_login_alice[of world0] by (simp add: world0_def)
  note a = await_bob[of "world0\<lparr>stdin := [], stdout := [''=== OAUTH LOGIN ==='', ''Opening browser for authorization...'']\<rparr>"]
  have m: "auth_state (closed_server\<lparr>auth_code := PStr ''ABC123'', auth_state := PStr ''bob''\<rparr>) \<noteq> PStr ''alice''"
    by simp
  from state_mismatch_rejected[OF b a m, of toy_lib creds_vault]
  show ?thesis by (simp add: world0_def)
qed

text \<open>
  C6 (as amended). The wait for the callback has no timeout and no abort: it returns
  exactly when the handler has captured a code, with the vault file untouched, and when no
  code is ever captured, in particular when no well-formed callback ever arrives, it never
  returns.
\<close>

theorem callback_wait_has_no_timeout:
  "((\<exists>k. truthy (auth_code (server_after arrivals n k httpd))) \<longrightarrow>
      (\<exists>httpd' w'. await_code arrivals n httpd w = Some (httpd', w') \<and>
         truthy (auth_code httpd') \<and> data_file w' = data_file w)) \<and>
   ((\<forall>k. \<not> truthy (auth_code (server_after arrivals n k httpd))) \<longrightarrow>
      await_code arrivals n httpd w = None) \<and>
   (\<not> truthy (auth_code httpd) \<and> (\<forall>m. \<forall>r\<in>set (arrivals m). \<not> well_formed r) \<longrightarrow>
      await_code arrivals n httpd w = None)"
proof (intro conjI impI)
  assume "\<exists>k. truthy (auth_code (server_after arrivals n k httpd))"
  then obtain k where "truthy (auth_code (server_after arrivals n k httpd))" ..
  from await_code_captured[OF this, of w] obtain y where y: "await_code arrivals n httpd w = Some y" ..
  from await_code_Some[OF y] y
  show "\<exists>httpd' w'. await_code arrivals n httpd w = Some (httpd', w') \<and>
         truthy (auth_code httpd') \<and> data_file w' = data_file w"
    by (cases y) auto
next
  assume n: "\<forall>k. \<not> truthy (auth_code (server_after arrivals n k httpd))"
  show "await_code arrivals n httpd w = None"
  proof (cases "await_code arrivals n httpd w")
    case (Some y)
    from await_code_Some[OF Some] n show ?thesis by auto
  qed simp
next
  assume "\<not> truthy (auth_code httpd) \<and> (\<forall>m. \<forall>r\<in>set (arrivals m). \<not> well_formed r)"
  then show "await_code arrivals n httpd w = None"
    using await_code_never by blast
qed

theorem callback_wait_has_no_timeout_witness:
  "(\<exists>httpd' w'. await_code bob_arrivals 0 closed_server world0 = Some (httpd', w') \<and>
         truthy (auth_code httpd') \<and> data_file w' = data_file world0) \<and>
   await_code (\<lambda>n. []) 0 closed_server world0 = None"
proof -
  have 1: "\<exists>k. truthy (auth_code (server_after bob_arrivals 0 k closed_server))"
    by (rule exI[of _ 1])
       (simp add: bob_arrivals_def serve_def do_GET_def query_param_def closed_server_def)
  have 2: "\<not> truthy (auth_code closed_server) \<and> (\<forall>m. \<forall>r\<in>set ((\<lambda>n. []) m :: request list). \<not> well_formed r)"
    by (simp add: closed_server_def)
  from callback_wait_has_no_timeout[of bob_arrivals 0 closed_server world0] 1
       callback_wait_has_no_timeout[of "\<lambda>n. []" 0 closed_server world0] 2
  show ?thesis by blast
qed

text \<open>
  C6 as stated fails: with credentials stored, a username typed in and no callback at all,
  \<open>tiktok_oauth_login\<close> never returns.
\<close>

theorem login_without_callback_never_returns:
  "tiktok_oauth_login toy_lib (\<lambda>n. []) ((world_of creds_vault)\<lparr>stdin := [''alice'']\<rparr>) = None"
proof -
  have p: "login_prefix toy_lib ((world_of creds_vault)\<lparr>stdin := [''alice'']\<rparr>) =
      (Val (Some (creds_vault, toy_creds)), (world_of creds_vault)\<lparr>stdin := [''alice'']\<rparr>)"
    by (simp add: login_prefix_def load_data_cases py_get_def dict_get_def toy_defs prog_defs)
  have b: "begin_login toy_creds ((world_of creds_vault)\<lparr>stdin := [''alice'']\<rparr>) =
     (Val (''alice'', closed_server),
      (world_of creds_vault)\<lparr>stdin := [], stdout := [''=== OAUTH LOGIN ==='', ''Opening browser for authorization...'']\<rparr>)"
    using begin_login_alice[of "world_of creds_vault"] by (simp add: world_of_def world0_def)
  have a: "await_code (\<lambda>n. []) 0 closed_server w = None" for w
    by (rule await_code_never) (simp_all add: closed_server_def)
  show ?thesis
    by (simp add: tiktok_oauth_login_def p oauth_attempt_def b a)
qed

subsection \<open>Failures and the life of the process\<close>

text \<open>
  C9 (as amended). \<open>encrypt_data\<close> ends the process with exit status 1 exactly when
  serialising, opening, writing or chmod-ing fails; the vault file is then as it was
  (serialising or opening failed), cut down to the bytes that were written (writing
  failed), or already replaced (chmod failed). \<open>load_data\<close> always returns a document,
  and no exception leaves the \<open>try\<close> block of \<open>tiktok_oauth_login\<close>; but an
  exception raised before that block leaves the function, which \<open>main_menu\<close> calls
  with no handler.
\<close>

theorem save_failure_exits_process:
  "fst (encrypt_data L d w) =
     (if json_dumps L d = None \<or> \<not> file_writable w \<or> write_fault w \<noteq> None \<or> \<not> chmod_ok w
      then Exit 1 else Val ()) \<and>
   data_file (snd (encrypt_data L d w)) =
     (case json_dumps L d of
        None \<Rightarrow> data_file w
      | Some s \<Rightarrow>
          if \<not> file_writable w then data_file w
          else (case write_fault w of
                  Some n \<Rightarrow> Some (take n (fernet_encrypt L (fernet_key w) s))
                | None \<Rightarrow> Some (fernet_encrypt L (fernet_key w) s))) \<and>
   (\<exists>doc. fst (load_data L w) = Val doc) \<and>
   (\<forall>r w'. oauth_attempt L data creds arrivals w = Some (r, w') \<longrightarrow> (\<forall>e. r \<noteq> Exc e)) \<and>
   (\<forall>e w'. tiktok_oauth_login L arrivals w = Some (Exc e, w') \<longleftrightarrow>
            login_prefix L w = (Exc e, w'))"
proof (intro conjI)
  show "fst (encrypt_data L d w) =
     (if json_dumps L d = None \<or> \<not> file_writable w \<or> write_fault w \<noteq> None \<or> \<not> chmod_ok w
      then Exit 1 else Val ())"
    by (auto simp: encrypt_data_cases split: option.splits)
  show "data_file (snd (encrypt_data L d w)) =
     (case json_dumps L d of
        None \<Rightarrow> data_file w
      | Some s \<Rightarrow>
          if \<not> file_writable w then data_file w
          else (case write_fault w of
                  Some n \<Rightarrow> Some (take n (fernet_encrypt L (fernet_key w) s))
                | None \<Rightarrow> Some (fernet_encrypt L (fernet_key w) s)))"
    by (auto simp: encrypt_data_cases split: option.splits)
  show "\<exists>doc. fst (load_data L w) = Val doc" by (rule load_data_Val)
  show "\<forall>r w'. oauth_attempt L data creds arrivals w = Some (r, w') \<longrightarrow> (\<forall>e. r \<noteq> Exc e)"
    using oauth_attempt_no_Exc[of L data creds arrivals w] by blast
  show "\<forall>e w'. tiktok_oauth_login L arrivals w = Some (Exc e, w') \<longleftrightarrow>
            login_prefix L w = (Exc e, w')"
    by (rule login_Exc_iff_prefix)
qed

subsection \<open>Where a refreshed session is stored\<close>

text \<open>
  C10. When a call of \<open>refresh_token_if_needed\<close> has asked the token endpoint and
  returned \<open>True\<close> (on its first attempt), and the vault document is a dict whose
  \<open>users\<close> entry is a dict, the document it has written is the vault document with
  the session it was passed, as updated, stored under the key that the document holds as
  \<open>current_user\<close>, whoever owns the session and whatever that key is (\<open>None\<close>
  included); every entry under another key is as it was.
\<close>

theorem refresh_persists_under_current_user:
  assumes "refresh_attempt L (w, user_data) = (Val True, (w', user_data'))"
    and "posted w' \<noteq> posted w"
    and "fst (load_data L w) = Val (PDict dkvs)"
    and "map_of dkvs (PStr ''users'') = Some (PDict us)"
  shows "refresh_token_if_needed L (w, user_data) = (Val True, (w', user_data')) \<and>
         (\<exists>cu s. map_of dkvs (PStr ''current_user'') = Some cu \<and>
            json_dumps L (PDict (dict_set dkvs (PStr ''users'')
                                   (PDict (dict_set us cu user_data')))) = Some s \<and>
            data_file w' = Some (fernet_encrypt L (fernet_key w) s) \<and>
            map_of (dict_set us cu user_data') cu = Some user_data' \<and>
            (\<forall>k. k \<noteq> cu \<longrightarrow> map_of (dict_set us cu user_data') k = map_of us k))"
  using refresh_attempt_True[OF assms] assms(1)
  by (auto simp: refresh_token_if_needed_def map_of_dict_set_same map_of_dict_set_other)

theorem refresh_persists_under_current_user_witness:
  "\<exists>w' user_data'.
     refresh_token_if_needed toy_lib
        ((world_of shared_vault)\<lparr>replies := [token_reply]\<rparr>, alice_session)
       = (Val True, (w', user_data')) \<and>
     (\<exists>s. json_dumps toy_lib
            (PDict [(PStr ''users'', PDict [(PStr ''alice'', alice_session),
                                            (PStr ''bob'', user_data')]),
                    (PStr ''analyses'', PList []), (PStr ''creds'', toy_creds),
                    (PStr ''current_user'', PStr ''bob'')]) = Some s \<and>
          data_file w' = Some (toy_encrypt ''k'' s))"
proof -
  from shared_refresh obtain w' user_data' where
    r: "refresh_attempt toy_lib ((world_of shared_vault)\<lparr>replies := [token_reply]\<rparr>, alice_session)
          = (Val True, (w', user_data'))"
    and p: "posted w' \<noteq> posted ((world_of shared_vault)\<lparr>replies := [token_reply]\<rparr>)"
    by (auto simp: world_of_def world0_def)
  have l: "fst (load_data toy_lib ((world_of shared_vault)\<lparr>replies := [token_reply]\<rparr>)) =
      Val (PDict [(PStr ''users'', PDict [(PStr ''alice'', alice_session), (PStr ''bob'', bob_session)]),
            (PStr ''analyses'', PList []),
            (PStr ''creds'', toy_creds),
            (PStr ''current_user'', PStr ''bob'')])"
    by (simp add: load_data_cases toy_defs)
  have u: "map_of [(PStr ''users'', PDict [(PStr ''alice'', alice_session), (PStr ''bob'', bob_session)]),
            (PStr ''analyses'', PList []),
            (PStr ''creds'', toy_creds),
            (PStr ''current_user'', PStr ''bob'')] (PStr ''users'') =
       Some (PDict [(PStr ''alice'', alice_session), (PStr ''bob'', bob_session)])"
    by simp
  have k: "fernet_key ((world_of shared_vault)\<lparr>replies := [token_reply]\<rparr>) = ''k''"
    by (simp add: world_of_def world0_def)
  have e: "fernet_encrypt toy_lib = toy_encrypt"
    by (simp add: toy_lib_def)
  from refresh_persists_under_current_user[OF r p l u]
  show ?thesis
    unfolding k e by (intro exI[of _ w'] exI[of _ user_data']) auto
qed

subsection \<open>The current user has an entry\<close>

text \<open>
  C8 (as amended). In eldoore1.1.py, completing a login, \<open>logout\<close>,
  \<open>refresh_token_if_needed\<close> and (when the document loaded has the invariant)
  \<open>set_credentials\<close> either leave the vault file as it was or leave in it a document in
  which the current user, if set to a username, has an entry in \<open>users\<close>.
\<close>

theorem vault_writes_keep_current_user_entry:
  "(complete_login L data creds username httpd w = (r1, w1) \<longrightarrow> file_inv L w w1) \<and>
   (logout L u w = (r2, w2) \<longrightarrow> file_inv L w w2) \<and>
   (refresh_token_if_needed L (w, user_data) = (r3, (w3, user_data')) \<longrightarrow> file_inv L w w3) \<and>
   (fst (load_data L w) = Val d0 \<and> vault_inv d0 \<and> set_credentials L getenv w = (r4, w4) \<longrightarrow>
      file_inv L w w4)"
proof (intro conjI impI)
  assume "complete_login L data creds username httpd w = (r1, w1)"
  then show "file_inv L w w1" by (rule good_file_inv_id[OF good_complete_login])
next
  assume "logout L u w = (r2, w2)"
  then show "file_inv L w w2" by (rule good_file_inv_id[OF good_logout])
next
  assume "refresh_token_if_needed L (w, user_data) = (r3, (w3, user_data'))"
  then show "file_inv L w w3" by (rule good_file_inv_fst[OF good_refresh_token_if_needed])
next
  assume a: "fst (load_data L w) = Val d0 \<and> vault_inv d0 \<and> set_credentials L getenv w = (r4, w4)"
  then have "good L id w (set_credentials L getenv)" using good_set_credentials by blast
  with a show "file_inv L w w4" by (blast intro: good_file_inv_id)
qed

theorem vault_writes_keep_current_user_entry_witness:
  "file_inv toy_lib (world_of alice_vault)
     (snd (logout toy_lib (PStr ''alice'') (world_of alice_vault))) \<and>
   data_file (snd (logout toy_lib (PStr ''alice'') (world_of alice_vault))) \<noteq>
     data_file (world_of alice_vault) \<and>
   vault_inv alice_vault \<and>
   file_inv toy_lib (world_of alice_vault)
     (snd (set_credentials toy_lib (\<lambda>name. Some ''x'') (world_of alice_vault))) \<and>
   file_inv toy_lib (world_of alice_vault)
     (fst (snd (refresh_token_if_needed toy_lib (world_of alice_vault, alice_session)))) \<and>
   file_inv toy_lib (world_of alice_vault)
     (snd (complete_login toy_lib alice_vault toy_creds ''alice'' closed_server
             (world_of alice_vault)))"
proof -
  let ?W = "world_of alice_vault"
  have 1: "data_file (snd (logout toy_lib (PStr ''alice'') ?W)) \<noteq> data_file ?W"
    by (simp add: logout_def logout_body_def load_data_cases encrypt_data_cases py_getitem_def
        py_contains_def py_delitem_def py_setitem_def toy_defs prog_defs)
  have 2: "fst (load_data toy_lib ?W) = Val alice_vault"
    by (simp add: load_data_cases toy_defs)
  have 3: "vault_inv alice_vault"
    by (simp add: vault_inv_def alice_vault_def)
  note t = vault_writes_keep_current_user_entry[where L = toy_lib and w = ?W
      and u = "PStr ''alice''" and ?d0.0 = alice_vault and getenv = "\<lambda>name. Some ''x''"
      and user_data = alice_session and data = alice_vault and creds = toy_creds
      and username = "''alice''" and httpd = closed_server
      and ?r1.0 = "fst (complete_login toy_lib alice_vault toy_creds ''alice'' closed_server ?W)"
      and ?w1.0 = "snd (complete_login toy_lib alice_vault toy_creds ''alice'' closed_server ?W)"
      and ?r2.0 = "fst (logout toy_lib (PStr ''alice'') ?W)"
      and ?w2.0 = "snd (logout toy_lib (PStr ''alice'') ?W)"
      and ?r3.0 = "fst (refresh_token_if_needed toy_lib (?W, alice_session))"
      and ?w3.0 = "fst (snd (refresh_token_if_needed toy_lib (?W, alice_session)))"
      and user_data' = "snd (snd (refresh_token_if_needed toy_lib (?W, alice_session)))"
      and ?r4.0 = "fst (set_credentials toy_lib (\<lambda>name. Some ''x'') ?W)"
      and ?w4.0 = "snd (set_credentials toy_lib (\<lambda>name. Some ''x'') ?W)"]
  from t 1 2 3 show ?thesis by simp
qed

text \<open>
  C8 as stated fails for \<open>tiktok_oauth_login\<close> of TTKv1.py: with credentials stored and no
  current user, it saves the username typed in as \<open>current_user\<close> before any entry
  exists; when the user then enters no code, it returns and the vault holds a document
  whose current user has no entry.
\<close>

theorem ttk_login_persists_current_user_without_entry:
  "fst (ttk_tiktok_oauth_login toy_lib
          ((world_of creds_vault)\<lparr>stdin := [''alice'', '''', '''']\<rparr>)) = Val () \<and>
   fst (ttk_load_data toy_lib
          (snd (ttk_tiktok_oauth_login toy_lib
                  ((world_of creds_vault)\<lparr>stdin := [''alice'', '''', '''']\<rparr>)))) = Val pending_vault \<and>
   \<not> vault_inv pending_vault"
  by (simp add: ttk_tiktok_oauth_login_def ttk_load_data_def ttk_encrypt_data_def
      read_data_file_def write_data_file_def py_get_def py_getitem_def py_setitem_def
      dict_get_def input_def strip_def is_space_def vault_inv_def
      toy_defs prog_defs)

end
